theory Spec2Isabelle
  imports Main "HOL-Library.Word"
begin

unbundle bit_operations_syntax

section \<open>Data model of atmega\_sys\_control.c\<close>

text \<open>
  The controller keeps its settings in EEPROM byte slots, mirrors them in a handful of
  global variables, and talks to two serial peers (Imp and Xbee) through one UART.
  All integers of the program that matter here are \<open>uint8_t\<close> / \<open>unsigned char\<close>;
  they are 8-bit words, so \<open>+\<close>, \<open>-\<close> and \<open>push_bit\<close> wrap as the C assignments
  to an 8-bit variable do.

  Not modelled: the LCD string buffers \<open>str_0\<close>/\<open>str_1\<close> and the display driver
  (\<open>strout\<close>, \<open>cmdout\<close>, \<open>datout\<close>, \<open>busywt\<close>), the delays, and the UART
  control registers. The panel functions and \<open>data_corruption\<close> write lines of 24
  characters and more, with their terminating zero, into the 24-byte buffers; where the
  bytes past the end of a buffer land depends on the memory layout of the build, and the
  model takes them not to land on any variable of the state below. The hardware inputs are finite traces: each volatile read of
  \<open>PINB\<close>/\<open>PINC\<close> consumes one sample, and each call of \<open>usart_in_imp\<close> /
  \<open>usart_in_xbee\<close> consumes one entry of the peer's receive trace (the byte the
  call returns; a silent peer makes the call time out and return \<open>0xFF\<close>).
  The bytes handed to \<open>usart_out_imp\<close> / \<open>usart_out_xbee\<close> are collected in logs.
\<close>

type_synonym u8 = "8 word"

subsection \<open>EEPROM locations and button masks (the \<open>#define\<close>s)\<close>

abbreviation TEMPR_0 :: nat where "TEMPR_0 \<equiv> 0x20"
abbreviation TEMPR_1 :: nat where "TEMPR_1 \<equiv> 0x21"
abbreviation HUMID_0 :: nat where "HUMID_0 \<equiv> 0x22"
abbreviation HUMID_1 :: nat where "HUMID_1 \<equiv> 0x23"
abbreviation LIGHT_0 :: nat where "LIGHT_0 \<equiv> 0x24"
abbreviation LIGHT_1 :: nat where "LIGHT_1 \<equiv> 0x25"
abbreviation PACKET0 :: nat where "PACKET0 \<equiv> 0x26"
abbreviation PACKET1 :: nat where "PACKET1 \<equiv> 0x27"
abbreviation PACKET2 :: nat where "PACKET2 \<equiv> 0x28"

text \<open>
  \<open>BTN_0 = 1 << PB7\<close>, \<open>BTN_1 = 1 << PC1\<close>, \<open>BTN_2 = 1 << PC2\<close>,
  \<open>BTN_3 = 1 << PC3\<close>. The bit numbers come from \<open>avr/io.h\<close> (not part of the
  repository); the file header gives them: PORTB bit 7 (0x80) is button 0, PORTC bits
  1 to 3 are buttons 1 to 3.
\<close>

abbreviation (input) BTN_0 :: u8 where "BTN_0 \<equiv> 0x80"
abbreviation (input) BTN_1 :: u8 where "BTN_1 \<equiv> 0x02"
abbreviation (input) BTN_2 :: u8 where "BTN_2 \<equiv> 0x04"
abbreviation (input) BTN_3 :: u8 where "BTN_3 \<equiv> 0x08"

abbreviation (input) TCLCL :: u8 where "TCLCL \<equiv> 4"

subsection \<open>Program state\<close>

record sys =
  eeprom :: "nat \<Rightarrow> u8"
  current :: u8
  editing :: u8
  changed :: u8
  counter :: u8
  pos_level :: u8
  fan_on :: bool
  cooler_on :: bool
  heater_on :: bool
  ac_auto :: bool
  tempr_val :: u8
  humid_on :: bool
  humid_val :: u8
  temp_sen :: u8
  humid_sen :: u8
  lights :: bool
  lights_auto :: bool
  current_loop :: u8
  addr :: nat
  local_data_0 :: u8
  local_data_1 :: u8
  tempDataByte :: u8
  io_char :: u8
  temp_char :: u8
  humid_char :: u8
  pinb :: "u8 list"
  pinc :: "u8 list"
  imp_rx :: "u8 list"
  xbee_rx :: "u8 list"
  imp_tx :: "u8 list"
  xbee_tx :: "u8 list"
  corrupt_log :: "nat list"

text \<open>
  Fields \<open>eeprom\<close> to \<open>lights_auto\<close> are the EEPROM and the globals of the file,
  \<open>current_loop\<close> to \<open>humid_char\<close> the locals of \<open>main\<close> that live across
  loop iterations, \<open>pinb\<close> to \<open>xbee_rx\<close> the input traces, \<open>imp_tx\<close> and
  \<open>xbee_tx\<close> the transmit logs, and \<open>corrupt_log\<close> the addresses passed to
  \<open>data_corruption\<close>, in call order.
\<close>

subsection \<open>EEPROM access\<close>

definition eeprom_read_byte :: "sys \<Rightarrow> nat \<Rightarrow> u8" where
  "eeprom_read_byte s a = eeprom s a"

definition eeprom_update_byte :: "nat \<Rightarrow> u8 \<Rightarrow> sys \<Rightarrow> sys" where
  "eeprom_update_byte a v s = s\<lparr>eeprom := (eeprom s)(a := v)\<rparr>"

text \<open>\<open>data_corruption(address)\<close>: shows the message, waits two seconds and returns.\<close>

definition data_corruption :: "nat \<Rightarrow> sys \<Rightarrow> sys" where
  "data_corruption a s = s\<lparr>corrupt_log := corrupt_log s @ [a]\<rparr>"

section \<open>The wire codec\<close>

text \<open>\<open>var_config\<close>: packet bytes in EEPROM to the settings slots.\<close>

definition var_config :: "sys \<Rightarrow> sys" where
  "var_config s =
    (let byte_bools = eeprom_read_byte s PACKET0;
         byte_tempr = eeprom_read_byte s PACKET1;
         byte_humid = eeprom_read_byte s PACKET2;
         tempr_MSD = push_bit 4 (byte_tempr div 10);
         tempr_LSD = byte_tempr mod 10;
         tempr_BCD = tempr_MSD OR tempr_LSD;
         tempr_set = (if byte_bools AND 0x02 \<noteq> 0 then 0
                      else if byte_bools AND 0x04 \<noteq> 0 then 1
                      else if byte_bools AND 0x08 \<noteq> 0 then 2 else (3::u8));
         tempr_set = push_bit 6 tempr_set;
         s = eeprom_update_byte TEMPR_0 tempr_BCD s;
         s = eeprom_update_byte TEMPR_1 tempr_set s;
         humid_MSD = push_bit 4 (byte_humid div 10);
         humid_LSD = byte_humid mod 10;
         humid_BCD = humid_MSD OR humid_LSD;
         humid_set = byte_humid AND 0x80;
         s = eeprom_update_byte HUMID_0 humid_BCD s;
         s = eeprom_update_byte HUMID_1 humid_set s;
         light_set = (if byte_bools AND 0x40 \<noteq> 0 then 0
                      else if byte_bools AND 0x20 \<noteq> 0 then 2 else (1::u8));
         light_set = push_bit 6 light_set
     in eeprom_update_byte LIGHT_0 light_set s)"

text \<open>\<open>packet_config\<close>: settings slots to the globals and the packet bytes in EEPROM.\<close>

definition packet_config :: "sys \<Rightarrow> sys" where
  "packet_config s =
    (let data_0 = eeprom_read_byte s TEMPR_0;
         data_1 = eeprom_read_byte s TEMPR_1;
         data_2 = eeprom_read_byte s HUMID_0;
         data_3 = eeprom_read_byte s HUMID_1;
         data_4 = eeprom_read_byte s LIGHT_0;
         tempr_high = drop_bit 4 (data_0 AND 0xF0);
         tempr_low = data_0 AND 0x0F;
         s = (if tempr_high > 9 \<or> tempr_low > 9 then data_corruption TEMPR_0 s else s);
         mode = drop_bit 6 (data_1 AND 0xC0);
         s = s\<lparr>tempr_val := tempr_high * 10 + tempr_low\<rparr>;
         s = s\<lparr>ac_auto := (mode = 0)\<rparr>;
         s = s\<lparr>fan_on := (mode = 1)\<rparr>;
         s = s\<lparr>heater_on := (mode = 2)\<rparr>;
         s = s\<lparr>cooler_on := (mode = 3)\<rparr>;
         humid_high = drop_bit 4 (data_2 AND 0xF0);
         humid_low = data_2 AND 0x0F;
         hum_e = drop_bit 7 (data_3 AND 0x80);
         s = s\<lparr>humid_val := humid_high * 10 + humid_low\<rparr>;
         s = s\<lparr>humid_on := (hum_e = 1)\<rparr>;
         light = drop_bit 6 (data_4 AND 0xC0);
         s = s\<lparr>lights := (light = 2)\<rparr>;
         s = s\<lparr>lights_auto := (light = 0)\<rparr>;
         byte_bools = (0::u8);
         byte_tempr = (0::u8);
         byte_humid = (0::u8);
         byte_bools = byte_bools OR push_bit 6 (of_bool (lights_auto s));
         byte_bools = byte_bools OR push_bit 5 (of_bool (lights s));
         byte_bools = byte_bools OR push_bit 4 (of_bool (cooler_on s));
         byte_bools = byte_bools OR push_bit 3 (of_bool (heater_on s));
         byte_bools = byte_bools OR push_bit 2 (of_bool (fan_on s));
         byte_bools = byte_bools OR push_bit 1 (of_bool (ac_auto s));
         byte_tempr = byte_tempr OR (tempr_val s AND 0x7F);
         byte_humid = byte_humid OR push_bit 7 (of_bool (humid_on s));
         byte_humid = byte_humid OR (humid_val s AND 0x7F);
         s = eeprom_update_byte PACKET0 byte_bools s;
         s = eeprom_update_byte PACKET1 byte_tempr s
     in eeprom_update_byte PACKET2 byte_humid s)"

section \<open>Buttons\<close>

text \<open>
  One volatile read of a pin register takes the next sample of its trace. A trace that
  has run out gives no result: the model says nothing beyond the recorded samples.
  The debounce loop \<open>while (btn) { btn = MASK & PIN; }\<close> is entered with the button
  seen pressed and reads until a sample shows it released; on a trace that never
  releases the button it does not return.
\<close>

fun release :: "u8 \<Rightarrow> u8 list \<Rightarrow> u8 list option" where
  "release m [] = None"
| "release m (x # xs) = (if m AND x \<noteq> 0 then release m xs else Some xs)"

text \<open>\<open>btn_db_mod\<close>: mode-select button (button 0) and phase-advance button (button 1).\<close>

definition btn_db_mod :: "sys \<Rightarrow> sys option" where
  "btn_db_mod s =
    (case pinb s of [] \<Rightarrow> None | pb # pbs \<Rightarrow>
     (case pinc s of [] \<Rightarrow> None | pc # pcs \<Rightarrow>
      (let btn_0 = BTN_0 AND pb;
           btn_1 = BTN_1 AND pc;
           s = s\<lparr>pinb := pbs, pinc := pcs\<rparr>
       in if editing s = 0 \<and> btn_0 \<noteq> 0 then
            (case release BTN_0 (pinb s) of None \<Rightarrow> None | Some pbs' \<Rightarrow>
              (let s = s\<lparr>pinb := pbs'\<rparr>;
                   s = s\<lparr>current := current s + 1\<rparr>
               in Some (if current s > 2 then s\<lparr>current := 0\<rparr> else s)))
          else if btn_1 \<noteq> 0 then
            (case release BTN_1 (pinc s) of None \<Rightarrow> None | Some pcs' \<Rightarrow>
              (let s = s\<lparr>pinc := pcs'\<rparr>
               in if current s = 0 then
                    (let s = s\<lparr>editing := editing s + 1\<rparr>
                     in Some (if editing s > 2 then s\<lparr>editing := 0\<rparr> else s))
                  else if current s = 1 then
                    (let s = s\<lparr>editing := editing s + 1\<rparr>
                     in Some (if editing s > 2 then s\<lparr>editing := 0\<rparr> else s))
                  else Some (s\<lparr>editing := (if editing s = 0 then 1 else 0)\<rparr>)))
          else Some s)))"

text \<open>
  \<open>btn_db_val\<close>: 1 for the increment button (button 2), 2 for the decrement button
  (button 3), 0 for neither. It reads \<open>PINC\<close> twice, once for each button.
\<close>

definition btn_db_val :: "sys \<Rightarrow> (u8 \<times> sys) option" where
  "btn_db_val s =
    (case pinc s of
       p2 # p3 # pcs \<Rightarrow>
        (let btn_2 = BTN_2 AND p2;
             btn_3 = BTN_3 AND p3;
             s = s\<lparr>pinc := pcs\<rparr>
         in if btn_2 \<noteq> 0 then
              (case release BTN_2 (pinc s) of None \<Rightarrow> None
               | Some pcs' \<Rightarrow> Some (1, s\<lparr>pinc := pcs'\<rparr>))
            else if btn_3 \<noteq> 0 then
              (case release BTN_3 (pinc s) of None \<Rightarrow> None
               | Some pcs' \<Rightarrow> Some (2, s\<lparr>pinc := pcs'\<rparr>))
            else Some (0, s))
     | _ \<Rightarrow> None)"

section \<open>The edit state machine\<close>

text \<open>
  The three panel functions are only ever called as
  \<open>f(&local_data_0, &local_data_1)\<close>, so their pointer parameters are the two
  locals of \<open>main\<close>. The digit arithmetic of the increment and decrement branches is
  split off into functions on the pair \<open>(high, low)\<close>.
\<close>

text \<open>Temperature, \<open>btn_type == 1\<close>: one degree up.\<close>

definition tempr_incr :: "u8 \<times> u8 \<Rightarrow> u8 \<times> u8" where
  "tempr_incr d =
    (let (tempr_high, tempr_low) = d;
         tempr_low = tempr_low + 1;
         (tempr_high, tempr_low) =
           (if tempr_low > 9 then (tempr_high + 1, 0) else (tempr_high, tempr_low))
     in if tempr_high = 9 \<and> tempr_low > 0 then (6, 0) else (tempr_high, tempr_low))"

text \<open>Temperature, \<open>btn_type == 2\<close>: one degree down.\<close>

definition tempr_decr :: "u8 \<times> u8 \<Rightarrow> u8 \<times> u8" where
  "tempr_decr d =
    (let (tempr_high, tempr_low) = d;
         tempr_low = tempr_low - 1;
         (tempr_high, tempr_low) =
           (if tempr_low > 9 then (tempr_high - 1, 9) else (tempr_high, tempr_low))
     in if tempr_high = 5 then (9, 0) else (tempr_high, tempr_low))"

definition tempr_config :: "sys \<Rightarrow> sys option" where
  "tempr_config s =
    (let tempr_high = drop_bit 4 (local_data_0 s AND 0xF0);
         tempr_low = local_data_0 s AND 0x0F;
         mode = drop_bit 6 (local_data_1 s AND 0xC0)
     in if editing s \<noteq> 0 then
          (case btn_db_val s of None \<Rightarrow> None
           | Some (btn_type, s) \<Rightarrow>
              if btn_type \<noteq> 0 then
                (let s = s\<lparr>changed := 1\<rparr>;
                     mode = (if editing s = 1
                             then (if mode = 0 then 1 else if mode = 1 then 2
                                   else if mode = 2 then 3 else 0)
                             else mode);
                     (tempr_high, tempr_low) =
                       (if editing s = 1 then (tempr_high, tempr_low)
                        else if btn_type = 1 then tempr_incr (tempr_high, tempr_low)
                        else if btn_type = 2 then tempr_decr (tempr_high, tempr_low)
                        else (tempr_high, tempr_low));
                     s = s\<lparr>local_data_0 := 0\<rparr>;
                     s = s\<lparr>local_data_0 := local_data_0 s OR push_bit 4 tempr_high\<rparr>;
                     s = s\<lparr>local_data_0 := local_data_0 s OR tempr_low\<rparr>;
                     s = s\<lparr>local_data_1 := 0\<rparr>;
                     s = s\<lparr>local_data_1 := local_data_1 s OR push_bit 6 mode\<rparr>
                 in Some s)
              else Some s)
        else Some s)"

text \<open>Humidity, \<open>btn_type == 1\<close>: five percent up.\<close>

definition humid_incr :: "u8 \<times> u8 \<Rightarrow> u8 \<times> u8" where
  "humid_incr d =
    (let (humid_high, humid_low) = d;
         humid_low = humid_low + 5;
         (humid_high, humid_low) =
           (if humid_low > 9 then (humid_high + 1, 0) else (humid_high, humid_low))
     in if humid_high = 10 then (0, humid_low) else (humid_high, humid_low))"

text \<open>Humidity, \<open>btn_type == 2\<close>: five percent down.\<close>

definition humid_decr :: "u8 \<times> u8 \<Rightarrow> u8 \<times> u8" where
  "humid_decr d =
    (let (humid_high, humid_low) = d;
         humid_low = humid_low - 5;
         (humid_high, humid_low) =
           (if humid_low > 9 then (humid_high - 1, 5) else (humid_high, humid_low))
     in if humid_high > 9 then (9, humid_low) else (humid_high, humid_low))"

definition humid_config :: "sys \<Rightarrow> sys option" where
  "humid_config s =
    (let humid_high = drop_bit 4 (local_data_0 s AND 0xF0);
         humid_low = local_data_0 s AND 0x0F;
         hum_e = drop_bit 7 (local_data_1 s AND 0x80)
     in if editing s \<noteq> 0 then
          (case btn_db_val s of None \<Rightarrow> None
           | Some (btn_type, s) \<Rightarrow>
              if btn_type \<noteq> 0 then
                (let s = s\<lparr>changed := 1\<rparr>;
                     hum_e = (if editing s = 1 then (if hum_e = 0 then 1 else 0) else hum_e);
                     (humid_high, humid_low) =
                       (if editing s = 1 then (humid_high, humid_low)
                        else if btn_type = 1 then humid_incr (humid_high, humid_low)
                        else if btn_type = 2 then humid_decr (humid_high, humid_low)
                        else (humid_high, humid_low));
                     s = s\<lparr>local_data_0 := 0\<rparr>;
                     s = s\<lparr>local_data_0 := local_data_0 s OR push_bit 4 humid_high\<rparr>;
                     s = s\<lparr>local_data_0 := local_data_0 s OR humid_low\<rparr>;
                     s = s\<lparr>local_data_1 := 0\<rparr>;
                     s = s\<lparr>local_data_1 := local_data_1 s OR push_bit 7 hum_e\<rparr>
                 in Some s)
              else Some s)
        else Some s)"

definition light_config :: "sys \<Rightarrow> sys option" where
  "light_config s =
    (let light = drop_bit 6 (local_data_0 s AND 0xC0)
     in if editing s \<noteq> 0 then
          (case btn_db_val s of None \<Rightarrow> None
           | Some (btn_type, s) \<Rightarrow>
              if btn_type \<noteq> 0 then
                (let s = s\<lparr>changed := 1\<rparr>;
                     light = (if light = 0 then 1 else if light = 1 then 2 else 0);
                     s = s\<lparr>local_data_0 := 0\<rparr>;
                     s = s\<lparr>local_data_0 := local_data_0 s OR push_bit 6 light\<rparr>
                 in Some s)
              else Some s)
        else Some s)"

text \<open>\<open>clk\<close>: the blink clock.\<close>

definition clk :: "sys \<Rightarrow> sys" where
  "clk s =
    (let s = s\<lparr>counter := counter s - 1\<rparr>
     in if counter s = 0 then s\<lparr>counter := TCLCL, pos_level := 0\<rparr>
        else if counter s = TCLCL div 2 then s\<lparr>pos_level := 1\<rparr>
        else s)"

section \<open>Serial input and output\<close>

text \<open>
  \<open>usart_in_imp\<close> and \<open>usart_in_xbee\<close> return the received byte, or \<open>0xFF\<close>
  when the wait for it times out. \<open>recv_imp\<close> and \<open>recv_xbee\<close> are the statements
  \<open>tempDataByte = usart_in_imp();\<close> and \<open>tempDataByte = usart_in_xbee();\<close>.
\<close>

definition usart_in_imp :: "sys \<Rightarrow> u8 \<times> sys" where
  "usart_in_imp s = (case imp_rx s of [] \<Rightarrow> (0xFF, s) | b # bs \<Rightarrow> (b, s\<lparr>imp_rx := bs\<rparr>))"

definition usart_in_xbee :: "sys \<Rightarrow> u8 \<times> sys" where
  "usart_in_xbee s = (case xbee_rx s of [] \<Rightarrow> (0xFF, s) | b # bs \<Rightarrow> (b, s\<lparr>xbee_rx := bs\<rparr>))"

definition recv_imp :: "sys \<Rightarrow> sys" where
  "recv_imp s = (let (b, s) = usart_in_imp s in s\<lparr>tempDataByte := b\<rparr>)"

definition recv_xbee :: "sys \<Rightarrow> sys" where
  "recv_xbee s = (let (b, s) = usart_in_xbee s in s\<lparr>tempDataByte := b\<rparr>)"

definition usart_out_imp :: "u8 \<Rightarrow> sys \<Rightarrow> sys" where
  "usart_out_imp ch s = s\<lparr>imp_tx := imp_tx s @ [ch]\<rparr>"

definition usart_out_xbee :: "u8 \<Rightarrow> sys \<Rightarrow> sys" where
  "usart_out_xbee ch s = s\<lparr>xbee_tx := xbee_tx s @ [ch]\<rparr>"

section \<open>The peer exchanges of one loop iteration\<close>

text \<open>The Imp exchange: from the first \<open>usart_in_imp\<close> to the end of "if header 0".\<close>

definition imp_exchange :: "sys \<Rightarrow> sys" where
  "imp_exchange s =
    (let s = recv_imp s in
     if tempDataByte s = 0xA9 then
       (let s = recv_imp s in
        if tempDataByte s = 0x65 then
          (let s = recv_imp s in
           if tempDataByte s \<noteq> 0xFF then
             (let s = s\<lparr>io_char := tempDataByte s\<rparr>;
                  s = recv_imp s in
              if tempDataByte s \<noteq> 0xFF then
                (let s = s\<lparr>temp_char := tempDataByte s\<rparr>;
                     s = recv_imp s in
                 if tempDataByte s \<noteq> 0xFF then
                   (let s = s\<lparr>humid_char := tempDataByte s\<rparr> in
                    if temp_char s AND 0x80 \<noteq> 0x00 then
                      (let s = packet_config s;
                           s = usart_out_imp (eeprom_read_byte s PACKET0) s;
                           s = usart_out_imp (eeprom_read_byte s PACKET1) s
                       in usart_out_imp (eeprom_read_byte s PACKET2) s)
                    else
                      (let s = eeprom_update_byte PACKET0 (io_char s) s;
                           s = eeprom_update_byte PACKET1 (temp_char s) s;
                           s = eeprom_update_byte PACKET2 (humid_char s) s;
                           s = var_config s;
                           s = usart_out_xbee (io_char s) s;
                           s = usart_out_xbee (temp_char s) s
                       in usart_out_xbee (humid_char s) s))
                 else s)
              else s)
           else s)
        else s)
     else s)"

text \<open>The Xbee exchange: from the first \<open>usart_in_xbee\<close> to the end of its \<open>if\<close>.\<close>

definition xbee_exchange :: "sys \<Rightarrow> sys" where
  "xbee_exchange s =
    (let s = recv_xbee s in
     if tempDataByte s = 0xE3 then
       (let s = recv_xbee s in
        if tempDataByte s \<noteq> 0xFF then
          (let s = s\<lparr>temp_char := tempDataByte s\<rparr>;
               s = recv_xbee s in
           if tempDataByte s \<noteq> 0xFF then
             (let s = s\<lparr>humid_char := tempDataByte s\<rparr>;
                  s = s\<lparr>humid_sen := humid_char s AND 0x7F\<rparr>;
                  s = s\<lparr>temp_sen := temp_char s AND 0x7F\<rparr>;
                  s = usart_out_xbee 0xD4 s;
                  s = usart_out_xbee (io_char s) s;
                  s = usart_out_xbee (temp_char s) s
              in usart_out_xbee (humid_char s) s)
           else s)
        else s)
     else s)"

section \<open>The main loop\<close>

text \<open>The head of the outer loop: choose the panel's slots and read them.\<close>

definition load_panel :: "sys \<Rightarrow> sys" where
  "load_panel s =
    (let s = s\<lparr>addr := (if current s = 2 then LIGHT_0
                        else if current s = 1 then HUMID_0 else TEMPR_0)\<rparr>;
         data_0 = eeprom_read_byte s (addr s);
         data_1 = eeprom_read_byte s (addr s + 1)
     in s\<lparr>local_data_0 := data_0, local_data_1 := data_1\<rparr>)"

text \<open>The write-back \<open>if (!editing && changed) { ... }\<close> of the inner loop.\<close>

definition store_edits :: "sys \<Rightarrow> sys" where
  "store_edits s =
    (if editing s = 0 \<and> changed s \<noteq> 0 then
       (let s = eeprom_update_byte (addr s) (local_data_0 s) s
        in eeprom_update_byte (addr s + 1) (local_data_1 s) s)
     else s)"

text \<open>
  One pass through the body of the inner loop. The flag says whether the pass left the
  inner loop through \<open>break\<close>.
\<close>

definition inner_body :: "sys \<Rightarrow> (bool \<times> sys) option" where
  "inner_body s =
    (case btn_db_mod s of None \<Rightarrow> None
     | Some s \<Rightarrow>
        (let s = store_edits s in
         if current_loop s \<noteq> current s then Some (True, s\<lparr>current_loop := current s\<rparr>)
         else
           (case (if current s = 0 then tempr_config s
                  else if current s = 1 then humid_config s
                  else if current s = 2 then light_config s
                  else Some s) of None \<Rightarrow> None
            | Some s \<Rightarrow>
               (let s = clk s;
                    s = packet_config s;
                    s = s\<lparr>io_char := eeprom_read_byte s PACKET0\<rparr>;
                    s = s\<lparr>temp_char := eeprom_read_byte s PACKET1\<rparr>;
                    s = s\<lparr>humid_char := eeprom_read_byte s PACKET2\<rparr>;
                    s = imp_exchange s;
                    s = xbee_exchange s
                in Some (False, s)))))"

text \<open>
  Both loops of \<open>main\<close> are \<open>while (one)\<close>: the program is the endless repetition
  of \<open>tick\<close>, a pass of the inner loop followed, after a \<open>break\<close>, by the head of the
  outer loop.
\<close>

definition tick :: "sys \<Rightarrow> sys option" where
  "tick s =
    (case inner_body s of None \<Rightarrow> None
     | Some (brk, s) \<Rightarrow> Some (if brk then load_panel s else s))"

fun run :: "nat \<Rightarrow> sys \<Rightarrow> sys option" where
  "run 0 s = Some s"
| "run (Suc n) s = (case tick s of None \<Rightarrow> None | Some s' \<Rightarrow> run n s')"

text \<open>
  The state when the outer loop is entered for the first time: initial values of the
  globals and locals, the EEPROM after the first-boot initialisation, and the given
  input traces.
\<close>

definition eeprom_init :: "(nat \<Rightarrow> u8) \<Rightarrow> (nat \<Rightarrow> u8)" where
  "eeprom_init m =
    (if m TEMPR_0 = 0xFF then
       m(TEMPR_0 := 117, TEMPR_1 := 0, HUMID_0 := 64, HUMID_1 := 0, LIGHT_0 := 0,
         LIGHT_1 := 0, PACKET0 := 0, PACKET1 := 0, PACKET2 := 0)
     else m)"

definition boot :: "(nat \<Rightarrow> u8) \<Rightarrow> u8 list \<Rightarrow> u8 list \<Rightarrow> u8 list \<Rightarrow> u8 list \<Rightarrow> sys" where
  "boot m pb pc irx xrx =
    load_panel
     \<lparr>eeprom = eeprom_init m, current = 0, editing = 0, changed = 0,
      counter = TCLCL, pos_level = 0,
      fan_on = False, cooler_on = False, heater_on = False, ac_auto = False,
      tempr_val = 75, humid_on = False, humid_val = 40,
      temp_sen = 0, humid_sen = 0, lights = False, lights_auto = False,
      current_loop = 0, addr = 0, local_data_0 = 0, local_data_1 = 0,
      tempDataByte = 0, io_char = 0, temp_char = 0, humid_char = 0,
      pinb = pb, pinc = pc, imp_rx = irx, xbee_rx = xrx,
      imp_tx = [], xbee_tx = [], corrupt_log = []\<rparr>"

section \<open>Notions used in the statements\<close>

text \<open>The six EEPROM slots that hold the settings.\<close>

definition settings_slots :: "nat set" where
  "settings_slots = {TEMPR_0, TEMPR_1, HUMID_0, HUMID_1, LIGHT_0, LIGHT_1}"

text \<open>
  \<open>rx_nth rx n\<close> is the byte that the call number \<open>n\<close> (from 0) of \<open>usart_in_imp\<close>
  or \<open>usart_in_xbee\<close> returns on the receive trace \<open>rx\<close>.
\<close>

definition rx_nth :: "u8 list \<Rightarrow> nat \<Rightarrow> u8" where
  "rx_nth rx n = (if n < length rx then rx ! n else 0xFF)"


text \<open>
  The part of a pass between the panel function and the Imp exchange: \<open>clk\<close>,
  \<open>packet_config\<close> and the three reads of the packet bytes.
\<close>

definition refresh_packet :: "sys \<Rightarrow> sys" where
  "refresh_packet s =
    (let s = clk s;
         s = packet_config s;
         s = s\<lparr>io_char := eeprom_read_byte s PACKET0\<rparr>;
         s = s\<lparr>temp_char := eeprom_read_byte s PACKET1\<rparr>
     in s\<lparr>humid_char := eeprom_read_byte s PACKET2\<rparr>)"

text \<open>
  The two digits of a stored byte, as every reader of the slots extracts them, and the
  byte the panel functions write back from two digits.
\<close>

definition bcd_high :: "u8 \<Rightarrow> u8" where
  "bcd_high d = drop_bit 4 (d AND 0xF0)"

definition bcd_low :: "u8 \<Rightarrow> u8" where
  "bcd_low d = d AND 0x0F"

definition bcd_pack :: "u8 \<times> u8 \<Rightarrow> u8" where
  "bcd_pack hl = (0 OR push_bit 4 (fst hl)) OR snd hl"

text \<open>The temperature target of a stored byte, computed as \<open>packet_config\<close> computes
  \<open>tempr_val\<close>, and the targets the temperature panel is meant to stay within.\<close>

definition tempr_target :: "u8 \<Rightarrow> u8" where
  "tempr_target d = bcd_high d * 10 + bcd_low d"

definition tempr_in_range :: "u8 \<Rightarrow> bool" where
  "tempr_in_range d \<longleftrightarrow>
     bcd_high d \<le> 9 \<and> bcd_low d \<le> 9 \<and> 60 \<le> tempr_target d \<and> tempr_target d \<le> 90"

text \<open>\<open>n\<close> successive calls of \<open>tempr_config\<close>, each sampling the buttons anew.\<close>

fun tempr_presses :: "nat \<Rightarrow> sys \<Rightarrow> sys option" where
  "tempr_presses 0 s = Some s"
| "tempr_presses (Suc n) s =
     (case tempr_config s of None \<Rightarrow> None | Some s' \<Rightarrow> tempr_presses n s')"

text \<open>
  The humidity step rule in the words of the specification, on decimal digits
  \<open>(high, low)\<close>: an increment adds 5 to the low digit; when the low digit exceeds 9 it
  becomes 0 and the high digit is incremented, wrapping to 0 when it reaches 10. A
  decrement subtracts 5 from the low digit; on borrow the low digit becomes 5 and the
  high digit is decremented, becoming 9 when it underflows.
\<close>

definition humid_incr_spec :: "nat \<times> nat \<Rightarrow> nat \<times> nat" where
  "humid_incr_spec hl =
    (let (h, l) = hl; l = l + 5 in
     if l > 9 then (if h + 1 = 10 then 0 else h + 1, 0) else (h, l))"

definition humid_decr_spec :: "nat \<times> nat \<Rightarrow> nat \<times> nat" where
  "humid_decr_spec hl =
    (let (h, l) = hl in
     if l < 5 then (if h = 0 then 9 else h - 1, 5) else (h, l - 5))"

definition digits_of :: "u8 \<Rightarrow> nat \<times> nat" where
  "digits_of d = (unat (bcd_high d), unat (bcd_low d))"

text \<open>
  The state at the first entry of the loop after a boot on an erased EEPROM, with no
  button samples recorded and the given receive traces.
\<close>

definition fresh :: "u8 list \<Rightarrow> u8 list \<Rightarrow> sys" where
  "fresh irx xrx = boot (\<lambda>_. 0xFF) [] [] irx xrx"

section \<open>Evaluation and frame lemmas\<close>

lemmas model_defs =
  fresh_def boot_def load_panel_def eeprom_init_def eeprom_read_byte_def eeprom_update_byte_def
  tick_def inner_body_def btn_db_mod_def btn_db_val_def store_edits_def
  tempr_config_def humid_config_def light_config_def
  tempr_incr_def tempr_decr_def humid_incr_def humid_decr_def
  clk_def packet_config_def var_config_def data_corruption_def
  imp_exchange_def xbee_exchange_def recv_imp_def recv_xbee_def
  usart_in_imp_def usart_in_xbee_def usart_out_imp_def usart_out_xbee_def

lemma run_numeral:
  "run (numeral k) s = (case tick s of None \<Rightarrow> None | Some s' \<Rightarrow> run (pred_numeral k) s')"
  by (simp add: numeral_eq_Suc)

lemma rx_nth_tl: "rx_nth (tl rx) n = rx_nth rx (Suc n)"
  by (cases rx) (simp_all add: rx_nth_def)

lemma rx_nth_Cons: "rx_nth (b # rx) 0 = b" "rx_nth (b # rx) (Suc n) = rx_nth rx n"
  by (simp_all add: rx_nth_def)

lemma recv_imp_eq:
  "recv_imp s = s\<lparr>imp_rx := tl (imp_rx s), tempDataByte := rx_nth (imp_rx s) 0\<rparr>"
  by (cases "imp_rx s") (simp_all add: recv_imp_def usart_in_imp_def rx_nth_def)

lemma recv_xbee_eq:
  "recv_xbee s = s\<lparr>xbee_rx := tl (xbee_rx s), tempDataByte := rx_nth (xbee_rx s) 0\<rparr>"
  by (cases "xbee_rx s") (simp_all add: recv_xbee_def usart_in_xbee_def rx_nth_def)

lemma packet_config_eeprom:
  "a \<notin> {PACKET0, PACKET1, PACKET2} \<Longrightarrow> eeprom (packet_config s) a = eeprom s a"
  by (simp add: packet_config_def Let_def eeprom_update_byte_def eeprom_read_byte_def
      data_corruption_def)

lemma usart_out_imp_eeprom: "eeprom (usart_out_imp c s) = eeprom s"
  by (simp add: usart_out_imp_def)

lemma xbee_exchange_eeprom: "eeprom (xbee_exchange s) = eeprom s"
  by (simp add: xbee_exchange_def recv_xbee_eq Let_def usart_out_xbee_def)

text \<open>What an accepted set command leaves behind.\<close>

lemma imp_exchange_set_command:
  assumes "imp_rx s = 0xA9 # 0x65 # b0 # b1 # b2 # rest"
    and "b0 \<noteq> 0xFF" and "b1 \<noteq> 0xFF" and "b2 \<noteq> 0xFF" and "b1 AND 0x80 = 0"
  shows "eeprom (imp_exchange s) TEMPR_0 = push_bit 4 (b1 div 10) OR b1 mod 10"
    and "eeprom (imp_exchange s) TEMPR_1 =
           push_bit 6 (if b0 AND 0x02 \<noteq> 0 then 0 else if b0 AND 0x04 \<noteq> 0 then 1
                       else if b0 AND 0x08 \<noteq> 0 then 2 else 3)"
    and "eeprom (imp_exchange s) HUMID_0 = push_bit 4 (b2 div 10) OR b2 mod 10"
    and "eeprom (imp_exchange s) HUMID_1 = b2 AND 0x80"
    and "eeprom (imp_exchange s) LIGHT_0 =
           push_bit 6 (if b0 AND 0x40 \<noteq> 0 then 0 else if b0 AND 0x20 \<noteq> 0 then 2 else 1)"
    and "eeprom (imp_exchange s) LIGHT_1 = eeprom s LIGHT_1"
    and "corrupt_log (imp_exchange s) = corrupt_log s"
    and "xbee_tx (imp_exchange s) = xbee_tx s @ [b0, b1, b2]"
  using assms
  by (simp_all add: imp_exchange_def recv_imp_def usart_in_imp_def Let_def usart_out_xbee_def
      var_config_def eeprom_update_byte_def eeprom_read_byte_def)

subsection \<open>Small 8-bit values\<close>

lemma u8_le_9_cases:
  fixes x :: u8
  assumes "x \<le> 9"
  shows "x = 0 \<or> x = 1 \<or> x = 2 \<or> x = 3 \<or> x = 4 \<or> x = 5 \<or> x = 6 \<or> x = 7 \<or> x = 8 \<or> x = 9"
proof -
  have "unat x \<le> 9"
    using assms by (simp add: word_le_nat_alt)
  then have "unat x = 0 \<or> unat x = 1 \<or> unat x = 2 \<or> unat x = 3 \<or> unat x = 4 \<or> unat x = 5
     \<or> unat x = 6 \<or> unat x = 7 \<or> unat x = 8 \<or> unat x = 9"
    by arith
  then show ?thesis
    by (simp add: word_unat_eq_iff)
qed

lemma u8_one_cmp:
  "\<not> (60::u8) \<le> 1" "(1::u8) \<le> 90" "(1::u8) \<le> 9" "\<not> (9::u8) < 1" "\<not> (10::u8) \<le> 1"
  by (simp_all add: word_le_nat_alt word_less_nat_alt)

subsection \<open>The button reader and the panel functions\<close>

lemma btn_db_val_frame:
  assumes "btn_db_val s = Some (bt, s1)"
  shows "editing s1 = editing s" and "local_data_0 s1 = local_data_0 s"
    and "local_data_1 s1 = local_data_1 s" and "changed s1 = changed s"
  using assms
  by (auto simp add: btn_db_val_def Let_def split: list.splits option.splits if_splits)


lemma tempr_config_edit_value:
  assumes "editing s = 2" and "btn_db_val s = Some (bt, s1)"
  shows "tempr_config s = Some (if bt \<noteq> 0 then
      s1\<lparr>changed := 1,
         local_data_0 := bcd_pack
           (if bt = 1 then tempr_incr (bcd_high (local_data_0 s), bcd_low (local_data_0 s))
            else if bt = 2 then tempr_decr (bcd_high (local_data_0 s), bcd_low (local_data_0 s))
            else (bcd_high (local_data_0 s), bcd_low (local_data_0 s))),
         local_data_1 := 0 OR push_bit 6 (drop_bit 6 (local_data_1 s AND 0xC0))\<rparr> else s1)"
  using assms btn_db_val_frame(1) [OF assms(2)]
  by (simp add: tempr_config_def Let_def bcd_high_def bcd_low_def bcd_pack_def split: prod.splits)

lemma humid_config_edit_value:
  assumes "editing s = 2" and "btn_db_val s = Some (bt, s1)"
  shows "humid_config s = Some (if bt \<noteq> 0 then
      s1\<lparr>changed := 1,
         local_data_0 := bcd_pack
           (if bt = 1 then humid_incr (bcd_high (local_data_0 s), bcd_low (local_data_0 s))
            else if bt = 2 then humid_decr (bcd_high (local_data_0 s), bcd_low (local_data_0 s))
            else (bcd_high (local_data_0 s), bcd_low (local_data_0 s))),
         local_data_1 := 0 OR push_bit 7 (drop_bit 7 (local_data_1 s AND 0x80))\<rparr> else s1)"
  using assms btn_db_val_frame(1) [OF assms(2)]
  by (simp add: humid_config_def Let_def bcd_high_def bcd_low_def bcd_pack_def split: prod.splits)

text \<open>One temperature step keeps a valid target between 60 and 90.\<close>

lemma tempr_step:
  assumes "tempr_in_range d"
  shows "tempr_in_range (bcd_pack (tempr_incr (bcd_high d, bcd_low d)))
    \<and> tempr_in_range (bcd_pack (tempr_decr (bcd_high d, bcd_low d)))
    \<and> tempr_in_range (bcd_pack (bcd_high d, bcd_low d))"
proof -
  define h l where "h = bcd_high d" and "l = bcd_low d"
  have r: "h \<le> 9" "l \<le> 9" "60 \<le> h * 10 + l" "h * 10 + l \<le> 90"
    using assms by (simp_all add: tempr_in_range_def tempr_target_def h_def l_def)
  have "tempr_in_range (bcd_pack (tempr_incr (h, l)))
    \<and> tempr_in_range (bcd_pack (tempr_decr (h, l)))
    \<and> tempr_in_range (bcd_pack (h, l))"
    using u8_le_9_cases [OF r(1)] u8_le_9_cases [OF r(2)] r(3,4)
    by (elim disjE;
        simp add: tempr_in_range_def tempr_target_def bcd_pack_def bcd_high_def bcd_low_def
          tempr_incr_def tempr_decr_def u8_one_cmp)
  then show ?thesis
    by (simp add: h_def l_def)
qed

lemma tempr_config_in_range:
  assumes "editing s = 2" and "tempr_in_range (local_data_0 s)" and "tempr_config s = Some s'"
  shows "editing s' = 2 \<and> tempr_in_range (local_data_0 s')"
proof -
  from assms(1,3) obtain bt s1 where b: "btn_db_val s = Some (bt, s1)"
    by (cases "btn_db_val s") (auto simp add: tempr_config_def Let_def)
  note f = btn_db_val_frame [OF b]
  show ?thesis
    using assms(3) tempr_step [OF assms(2)] assms(1,2) f
    unfolding tempr_config_edit_value [OF assms(1) b]
    by (auto split: if_splits)
qed

lemma tempr_presses_in_range:
  "editing s = 2 \<Longrightarrow> tempr_in_range (local_data_0 s) \<Longrightarrow> tempr_presses n s = Some s'
    \<Longrightarrow> tempr_in_range (local_data_0 s')"
proof (induction n arbitrary: s)
  case 0
  then show ?case by simp
next
  case (Suc n)
  from Suc.prems(3) obtain s1
    where t: "tempr_config s = Some s1" and r: "tempr_presses n s1 = Some s'"
    by (auto split: option.splits)
  from tempr_config_in_range [OF Suc.prems(1,2) t] Suc.IH [OF _ _ r]
  show ?case by blast
qed

text \<open>One humidity step on valid digits is the step of the specification.\<close>

lemma humid_step:
  assumes "bcd_high d \<le> 9" and "bcd_low d \<le> 9"
  shows "digits_of (bcd_pack (humid_incr (bcd_high d, bcd_low d))) = humid_incr_spec (digits_of d)
     \<and> digits_of (bcd_pack (humid_decr (bcd_high d, bcd_low d))) = humid_decr_spec (digits_of d)"
proof -
  define h l where "h = bcd_high d" and "l = bcd_low d"
  have "digits_of (bcd_pack (humid_incr (h, l))) = humid_incr_spec (unat h, unat l)
     \<and> digits_of (bcd_pack (humid_decr (h, l))) = humid_decr_spec (unat h, unat l)"
    using u8_le_9_cases [OF assms(1)] u8_le_9_cases [OF assms(2)]
    unfolding h_def [symmetric] l_def [symmetric]
    by (elim disjE;
        simp add: digits_of_def bcd_pack_def bcd_high_def bcd_low_def
          humid_incr_def humid_decr_def humid_incr_spec_def humid_decr_spec_def u8_one_cmp)
  then show ?thesis
    by (simp add: h_def l_def digits_of_def)
qed

subsection \<open>The change flag is only ever set\<close>















subsection \<open>The structure of a pass\<close>

lemma btn_db_val_pinc:
  assumes "btn_db_val s = Some (bt, s1)"
  shows "\<exists>pcs. s1 = s\<lparr>pinc := pcs\<rparr>"
  using assms
  by (auto simp add: btn_db_val_def Let_def split: list.splits option.splits if_splits)

lemma btn_db_mod_frame:
  assumes "btn_db_mod s = Some s1"
  shows "eeprom s1 = eeprom s" and "changed s1 = changed s" and "addr s1 = addr s"
    and "local_data_0 s1 = local_data_0 s" and "local_data_1 s1 = local_data_1 s"
    and "current_loop s1 = current_loop s" and "imp_rx s1 = imp_rx s"
    and "corrupt_log s1 = corrupt_log s"
    and "editing s \<noteq> 0 \<Longrightarrow> current s1 = current s"
  using assms
  by (auto simp add: btn_db_mod_def Let_def split: list.splits option.splits if_splits)

text \<open>The \<open>switch (current)\<close> of the inner loop changes neither the EEPROM nor the peers.\<close>

lemma panel_frame:
  assumes "(if current u = 0 then tempr_config u
            else if current u = 1 then humid_config u
            else if current u = 2 then light_config u
            else Some u) = Some t"
  shows "eeprom t = eeprom u" and "imp_rx t = imp_rx u" and "corrupt_log t = corrupt_log u"
    and "editing t = editing u" and "addr t = addr u"
  using assms
  by (auto simp add: tempr_config_def humid_config_def light_config_def Let_def
      split: if_splits option.splits prod.splits dest!: btn_db_val_pinc)

lemma store_edits_frame:
  shows "current (store_edits s) = current s" and "current_loop (store_edits s) = current_loop s"
    and "editing (store_edits s) = editing s" and "imp_rx (store_edits s) = imp_rx s"
    and "corrupt_log (store_edits s) = corrupt_log s" and "addr (store_edits s) = addr s"
  by (simp_all add: store_edits_def eeprom_update_byte_def Let_def)

text \<open>A pass that does not leave the inner loop: what it is made of.\<close>

lemma tick_no_switch:
  assumes "tick s = Some s'" and "btn_db_mod s = Some t" and "current_loop t = current t"
  shows "\<exists>t2. (if current (store_edits t) = 0 then tempr_config (store_edits t)
               else if current (store_edits t) = 1 then humid_config (store_edits t)
               else if current (store_edits t) = 2 then light_config (store_edits t)
               else Some (store_edits t)) = Some t2
          \<and> s' = xbee_exchange (imp_exchange (refresh_packet t2))"
proof -
  let ?u = "store_edits t"
  let ?cfg = "if current ?u = 0 then tempr_config ?u
              else if current ?u = 1 then humid_config ?u
              else if current ?u = 2 then light_config ?u
              else Some ?u"
  have c: "current_loop ?u = current ?u"
    using assms(3) by (simp add: store_edits_frame)
  from assms(1,2) c obtain t2 where g: "?cfg = Some t2"
    by (cases ?cfg) (simp_all add: tick_def inner_body_def Let_def)
  have "s' = xbee_exchange (imp_exchange (refresh_packet t2))"
    using assms(1,2) c g by (simp add: tick_def inner_body_def Let_def refresh_packet_def)
  with g show ?thesis
    by blast
qed

lemma refresh_packet_frame:
  shows "imp_rx (refresh_packet s) = imp_rx s"
    and "a \<notin> {PACKET0, PACKET1, PACKET2} \<Longrightarrow> eeprom (refresh_packet s) a = eeprom s a"
    and "changed (refresh_packet s) = changed s"
    and "editing (refresh_packet s) = editing s"
    and "corrupt_log (refresh_packet s) = corrupt_log (packet_config s)"
  by (simp_all add: refresh_packet_def clk_def packet_config_def Let_def eeprom_update_byte_def
      eeprom_read_byte_def data_corruption_def)






subsection \<open>Decimal digits written by \<open>var_config\<close>\<close>

lemma top_bit_clear:
  fixes b :: u8
  assumes "b AND 0x80 = 0"
  shows "unat b < 128"
proof -
  have n7: "\<not> bit b 7"
    using assms bit_iff_and_push_bit_not_eq_0 [of b 7] by simp
  have "take_bit 7 b = b"
  proof (rule bit_word_eqI)
    fix n
    assume "n < LENGTH(8)"
    then have "n < 7 \<or> n = 7"
      by auto
    then show "bit (take_bit 7 b) n \<longleftrightarrow> bit b n"
      using n7 by (auto simp add: bit_take_bit_iff)
  qed
  then have "unat b = take_bit 7 (unat b)"
    by (metis unsigned_take_bit_eq)
  also have "\<dots> < 2 ^ 7"
    by (rule take_bit_nat_less_exp)
  finally show ?thesis
    by simp
qed

lemma u8_le_12_cases:
  fixes x :: u8
  assumes "x \<le> 12"
  shows "x = 0 \<or> x = 1 \<or> x = 2 \<or> x = 3 \<or> x = 4 \<or> x = 5 \<or> x = 6 \<or> x = 7 \<or> x = 8
    \<or> x = 9 \<or> x = 10 \<or> x = 11 \<or> x = 12"
proof -
  have "unat x \<le> 12"
    using assms by (simp add: word_le_nat_alt)
  then have "unat x = 0 \<or> unat x = 1 \<or> unat x = 2 \<or> unat x = 3 \<or> unat x = 4 \<or> unat x = 5
     \<or> unat x = 6 \<or> unat x = 7 \<or> unat x = 8 \<or> unat x = 9 \<or> unat x = 10 \<or> unat x = 11
     \<or> unat x = 12"
    by arith
  then show ?thesis
    by (simp add: word_unat_eq_iff)
qed

lemma var_config_digits:
  fixes b :: u8
  assumes "b AND 0x80 = 0"
  shows "bcd_high (push_bit 4 (b div 10) OR b mod 10) = b div 10"
    and "bcd_low (push_bit 4 (b div 10) OR b mod 10) = b mod 10"
    and "b mod 10 \<le> 9"
    and "b div 10 \<le> 9 \<longleftrightarrow> b \<le> 99"
proof -
  note u = top_bit_clear [OF assms]
  have q: "b div 10 \<le> 12"
    using u by (simp add: word_le_nat_alt unat_div)
  show r: "b mod 10 \<le> 9"
    by (simp add: word_le_nat_alt unat_mod)
  show "b div 10 \<le> 9 \<longleftrightarrow> b \<le> 99"
    by (simp add: word_le_nat_alt unat_div) arith
  define q' r' where "q' = b div 10" and "r' = b mod 10"
  have "bcd_high (push_bit 4 q' OR r') = q' \<and> bcd_low (push_bit 4 q' OR r') = r'"
    using u8_le_12_cases [OF q] u8_le_9_cases [OF r] unfolding q'_def [symmetric] r'_def [symmetric]
    by (elim disjE; simp add: bcd_high_def bcd_low_def)
  then show "bcd_high (push_bit 4 (b div 10) OR b mod 10) = b div 10"
    and "bcd_low (push_bit 4 (b div 10) OR b mod 10) = b mod 10"
    by (simp_all add: q'_def r'_def)
qed

lemma tens_digit_range:
  fixes b :: u8
  assumes "b AND 0x80 = 0" and "99 < b"
  shows "10 \<le> b div 10 \<and> b div 10 \<le> 12"
proof -
  have "unat b < 128" and "99 < unat b"
    using top_bit_clear [OF assms(1)] assms(2) by (simp_all add: word_less_nat_alt)
  then have "10 \<le> unat b div 10 \<and> unat b div 10 \<le> 12"
    by arith
  then show ?thesis
    by (simp add: word_le_nat_alt unat_div)
qed

subsection \<open>Corruption faults across passes\<close>

lemma packet_config_log:
  "corrupt_log (packet_config s) =
     (if bcd_high (eeprom s TEMPR_0) \<le> 9 \<and> bcd_low (eeprom s TEMPR_0) \<le> 9
      then corrupt_log s else corrupt_log s @ [TEMPR_0])"
  by (auto simp add: packet_config_def Let_def eeprom_update_byte_def eeprom_read_byte_def
      data_corruption_def bcd_high_def bcd_low_def not_less)

lemma xbee_exchange_log: "corrupt_log (xbee_exchange s) = corrupt_log s"
  by (simp add: xbee_exchange_def recv_xbee_eq Let_def usart_out_xbee_def)

text \<open>The Imp exchange logs a fault only through the \<open>packet_config\<close> of a status request.\<close>

lemma imp_exchange_log:
  "corrupt_log (imp_exchange s) = corrupt_log s
   \<or> (corrupt_log (imp_exchange s) = corrupt_log s @ [TEMPR_0]
      \<and> \<not> (bcd_high (eeprom s TEMPR_0) \<le> 9 \<and> bcd_low (eeprom s TEMPR_0) \<le> 9))"
proof -
  have p: "corrupt_log (packet_config u) = corrupt_log s
     \<or> (corrupt_log (packet_config u) = corrupt_log s @ [TEMPR_0]
        \<and> \<not> (bcd_high (eeprom s TEMPR_0) \<le> 9 \<and> bcd_low (eeprom s TEMPR_0) \<le> 9))"
    if "eeprom u = eeprom s" and "corrupt_log u = corrupt_log s" for u
    using that by (simp add: packet_config_log)
  show ?thesis
    using p
    by (simp add: imp_exchange_def recv_imp_eq Let_def usart_out_imp_def usart_out_xbee_def
        var_config_def eeprom_update_byte_def)
qed

text \<open>
  A set command accepted in one pass and the fault logged in the next, when the next
  pass stays on its panel and its write-back leaves the temperature slot alone.
\<close>

lemma set_command_then_decode:
  assumes p1: "tick p = Some p1" and m: "btn_db_mod p = Some t" and c: "current_loop t = current t"
    and rx: "imp_rx p = 0xA9 # 0x65 # b0 # b1 # b2 # rest"
    and b: "b0 \<noteq> 0xFF" "b1 \<noteq> 0xFF" "b2 \<noteq> 0xFF" "b1 AND 0x80 = 0"
    and p2: "tick p1 = Some p2" and m1: "btn_db_mod p1 = Some t1"
    and c1: "current_loop t1 = current t1"
    and w: "eeprom (store_edits t1) TEMPR_0 = eeprom t1 TEMPR_0"
  shows "eeprom p1 TEMPR_0 = push_bit 4 (b1 div 10) OR b1 mod 10"
    and "corrupt_log p2 = corrupt_log p1 \<longleftrightarrow> b1 \<le> 99"
proof -
  from tick_no_switch [OF p1 m c] obtain t2
    where g: "(if current (store_edits t) = 0 then tempr_config (store_edits t)
               else if current (store_edits t) = 1 then humid_config (store_edits t)
               else if current (store_edits t) = 2 then light_config (store_edits t)
               else Some (store_edits t)) = Some t2"
      and e: "p1 = xbee_exchange (imp_exchange (refresh_packet t2))"
    by blast
  have "imp_rx (refresh_packet t2) = 0xA9 # 0x65 # b0 # b1 # b2 # rest"
    using rx panel_frame(2) [OF g] btn_db_mod_frame(7) [OF m]
    by (simp add: refresh_packet_frame store_edits_frame)
  from imp_exchange_set_command(1) [OF this b]
  show slot: "eeprom p1 TEMPR_0 = push_bit 4 (b1 div 10) OR b1 mod 10"
    by (simp add: e xbee_exchange_eeprom)
  from tick_no_switch [OF p2 m1 c1] obtain t3
    where g1: "(if current (store_edits t1) = 0 then tempr_config (store_edits t1)
               else if current (store_edits t1) = 1 then humid_config (store_edits t1)
               else if current (store_edits t1) = 2 then light_config (store_edits t1)
               else Some (store_edits t1)) = Some t3"
      and e1: "p2 = xbee_exchange (imp_exchange (refresh_packet t3))"
    by blast
  have s3: "eeprom t3 TEMPR_0 = push_bit 4 (b1 div 10) OR b1 mod 10"
    using panel_frame(1) [OF g1] w btn_db_mod_frame(1) [OF m1] slot by simp
  have l3: "corrupt_log t3 = corrupt_log p1"
    using panel_frame(3) [OF g1] btn_db_mod_frame(8) [OF m1] by (simp add: store_edits_frame)
  note v = var_config_digits [OF b(4)]
  have ok: "bcd_high (eeprom t3 TEMPR_0) \<le> 9 \<and> bcd_low (eeprom t3 TEMPR_0) \<le> 9 \<longleftrightarrow> b1 \<le> 99"
    unfolding s3 using v by simp
  have r: "eeprom (refresh_packet t3) TEMPR_0 = eeprom t3 TEMPR_0"
    by (simp add: refresh_packet_frame)
  have lr: "corrupt_log (refresh_packet t3) =
     (if b1 \<le> 99 then corrupt_log p1 else corrupt_log p1 @ [TEMPR_0])"
    using ok by (simp add: refresh_packet_frame packet_config_log l3)
  have "corrupt_log p2 = corrupt_log (imp_exchange (refresh_packet t3))"
    by (simp add: e1 xbee_exchange_log)
  then show "corrupt_log p2 = corrupt_log p1 \<longleftrightarrow> b1 \<le> 99"
    using imp_exchange_log [of "refresh_packet t3"] lr ok r by auto
qed

subsection \<open>Encoding and decoding the stored digits\<close>

text \<open>
  On valid settings slots (decimal digits, mode and light fields in their two top bits,
  enable flag in bit 7) the temperature, mode, enable and light slots survive
  \<open>packet_config\<close> followed by \<open>var_config\<close>; the humidity slot survives exactly
  when the humidifier is off.
\<close>

lemma bcd_unpack:
  fixes d :: u8
  shows "push_bit 4 (bcd_high d) OR bcd_low d = d"
proof (rule bit_word_eqI)
  fix i
  assume "i < LENGTH(8)"
  then have "i \<in> {0, 1, 2, 3, 4, 5, 6, 7}"
    by auto
  then show "bit (push_bit 4 (bcd_high d) OR bcd_low d) i \<longleftrightarrow> bit d i"
    by (elim insertE emptyE; simp add: bcd_high_def bcd_low_def bit_simps)
qed

lemma bcd_roundtrip:
  fixes d :: u8
  assumes "bcd_high d \<le> 9" and "bcd_low d \<le> 9"
  shows "push_bit 4 (((bcd_high d * 10 + bcd_low d) AND 0x7F) div 10)
           OR ((bcd_high d * 10 + bcd_low d) AND 0x7F) mod 10 = d"
    and "push_bit 4 ((push_bit 7 1 OR ((bcd_high d * 10 + bcd_low d) AND 0x7F)) div 10)
           OR (push_bit 7 1 OR ((bcd_high d * 10 + bcd_low d) AND 0x7F)) mod 10 \<noteq> d"
proof -
  define h l where "h = bcd_high d" and "l = bcd_low d"
  have d: "d = push_bit 4 h OR l"
    by (simp add: h_def l_def bcd_unpack)
  have "push_bit 4 (((h * 10 + l) AND 0x7F) div 10) OR ((h * 10 + l) AND 0x7F) mod 10
          = push_bit 4 h OR l
    \<and> push_bit 4 ((push_bit 7 1 OR ((h * 10 + l) AND 0x7F)) div 10)
           OR (push_bit 7 1 OR ((h * 10 + l) AND 0x7F)) mod 10 \<noteq> push_bit 4 h OR l"
    using u8_le_9_cases [OF assms(1)] u8_le_9_cases [OF assms(2)]
    unfolding h_def [symmetric] l_def [symmetric]
    by (elim disjE; simp)
  then show "push_bit 4 (((bcd_high d * 10 + bcd_low d) AND 0x7F) div 10)
           OR ((bcd_high d * 10 + bcd_low d) AND 0x7F) mod 10 = d"
    and "push_bit 4 ((push_bit 7 1 OR ((bcd_high d * 10 + bcd_low d) AND 0x7F)) div 10)
           OR (push_bit 7 1 OR ((bcd_high d * 10 + bcd_low d) AND 0x7F)) mod 10 \<noteq> d"
    unfolding h_def [symmetric] l_def [symmetric] using d by simp_all
qed

lemma enable_bit_kept:
  fixes x :: u8
  shows "(x AND 0x7F) AND 0x80 = 0" and "(0x80 OR (x AND 0x7F)) AND 0x80 = 0x80"
  by (simp_all add: bit.conj_disj_distrib2 and.assoc)

lemma codec_roundtrip_slots:
  assumes "bcd_high (eeprom s TEMPR_0) \<le> 9" and "bcd_low (eeprom s TEMPR_0) \<le> 9"
    and "eeprom s TEMPR_1 \<in> {0x00, 0x40, 0x80, 0xC0}"
    and "bcd_high (eeprom s HUMID_0) \<le> 9" and "bcd_low (eeprom s HUMID_0) \<le> 9"
    and "eeprom s HUMID_1 \<in> {0x00, 0x80}"
    and "eeprom s LIGHT_0 \<in> {0x00, 0x40, 0x80}"
  shows "eeprom (var_config (packet_config s)) TEMPR_0 = eeprom s TEMPR_0"
    and "eeprom (var_config (packet_config s)) TEMPR_1 = eeprom s TEMPR_1"
    and "eeprom (var_config (packet_config s)) HUMID_1 = eeprom s HUMID_1"
    and "eeprom (var_config (packet_config s)) LIGHT_0 = eeprom s LIGHT_0"
    and "eeprom (var_config (packet_config s)) HUMID_0 = eeprom s HUMID_0
           \<longleftrightarrow> eeprom s HUMID_1 = 0x00"
proof -
  let ?t = "(bcd_high (eeprom s TEMPR_0) * 10 + bcd_low (eeprom s TEMPR_0)) AND 0x7F"
  let ?h = "(bcd_high (eeprom s HUMID_0) * 10 + bcd_low (eeprom s HUMID_0)) AND 0x7F"
  have t: "eeprom (var_config (packet_config s)) TEMPR_0 = push_bit 4 (?t div 10) OR ?t mod 10"
    by (simp add: packet_config_def var_config_def Let_def eeprom_update_byte_def
        eeprom_read_byte_def data_corruption_def bcd_high_def bcd_low_def)
  show "eeprom (var_config (packet_config s)) TEMPR_0 = eeprom s TEMPR_0"
    unfolding t using bcd_roundtrip(1) [OF assms(1,2)] .
  show "eeprom (var_config (packet_config s)) TEMPR_1 = eeprom s TEMPR_1"
    using assms(3)
    by (auto simp add: packet_config_def var_config_def Let_def eeprom_update_byte_def
        eeprom_read_byte_def data_corruption_def)
  show "eeprom (var_config (packet_config s)) HUMID_1 = eeprom s HUMID_1"
    using assms(6)
    by (auto simp add: packet_config_def var_config_def Let_def eeprom_update_byte_def
        eeprom_read_byte_def data_corruption_def enable_bit_kept)
  show "eeprom (var_config (packet_config s)) LIGHT_0 = eeprom s LIGHT_0"
    using assms(7)
    by (auto simp add: packet_config_def var_config_def Let_def eeprom_update_byte_def
        eeprom_read_byte_def data_corruption_def)
  have off: "eeprom s HUMID_1 = 0x00 \<Longrightarrow>
      eeprom (var_config (packet_config s)) HUMID_0 = push_bit 4 (?h div 10) OR ?h mod 10"
    and on: "eeprom s HUMID_1 = 0x80 \<Longrightarrow>
      eeprom (var_config (packet_config s)) HUMID_0
        = push_bit 4 ((push_bit 7 1 OR ?h) div 10) OR (push_bit 7 1 OR ?h) mod 10"
    by (simp_all add: packet_config_def var_config_def Let_def eeprom_update_byte_def
        eeprom_read_byte_def data_corruption_def bcd_high_def bcd_low_def)
  show "eeprom (var_config (packet_config s)) HUMID_0 = eeprom s HUMID_0
           \<longleftrightarrow> eeprom s HUMID_1 = 0x00"
    using assms(6) off on bcd_roundtrip [OF assms(4,5)]
    by auto
qed

section \<open>The wire codec: round trip\<close>

text \<open>
  Claim C1: for every valid Settings value, decoding the packet produced by encoding it
  (\<open>var_config\<close> after \<open>packet_config\<close>) yields the same Settings again.

  The code breaks this when the humidifier is enabled: \<open>var_config\<close> converts the
  whole humidity byte to decimal digits, enable bit included. The theorem runs the two
  functions on the first-boot settings (75 F, Auto, humidity 40, light Auto) with the
  humidifier switched on: the humidity slot holds 0x40 before and 0x08 after, while
  the other four slots come back as they were. Lemma \<open>codec_roundtrip_slots\<close> above
  shows that this is the only way the round trip fails on valid settings.
\<close>

theorem roundtrip_humidifier_on:
  "eeprom (eeprom_update_byte HUMID_1 0x80 (fresh [] [])) HUMID_0 = 0x40
   \<and> eeprom (packet_config (eeprom_update_byte HUMID_1 0x80 (fresh [] []))) PACKET2 = 0xA8
   \<and> eeprom (var_config (packet_config (eeprom_update_byte HUMID_1 0x80 (fresh [] []))))
         HUMID_0 = 0x08
   \<and> eeprom (var_config (packet_config (eeprom_update_byte HUMID_1 0x80 (fresh [] []))))
         TEMPR_0 = eeprom (eeprom_update_byte HUMID_1 0x80 (fresh [] [])) TEMPR_0
   \<and> eeprom (var_config (packet_config (eeprom_update_byte HUMID_1 0x80 (fresh [] []))))
         TEMPR_1 = eeprom (eeprom_update_byte HUMID_1 0x80 (fresh [] [])) TEMPR_1
   \<and> eeprom (var_config (packet_config (eeprom_update_byte HUMID_1 0x80 (fresh [] []))))
         HUMID_1 = eeprom (eeprom_update_byte HUMID_1 0x80 (fresh [] [])) HUMID_1
   \<and> eeprom (var_config (packet_config (eeprom_update_byte HUMID_1 0x80 (fresh [] []))))
         LIGHT_0 = eeprom (eeprom_update_byte HUMID_1 0x80 (fresh [] [])) LIGHT_0"
  by (simp add: model_defs Let_def cong: let_weak_cong)

section \<open>The Imp exchange\<close>

text \<open>
  Claim C2: for every Imp exchange whose three payload bytes are read successfully, if the
  temperature byte has its top bit set (a status request) the settings slots are
  unchanged by the exchange, and if the top bit is clear (a set command) the settings
  slots are updated from the decoded payload: each written slot is the value
  \<open>var_config\<close> decodes from the three received bytes, whatever the slots held before
  (\<open>LIGHT_1\<close> is never written).
\<close>

theorem imp_exchange_settings_effect:
  assumes "imp_rx s = 0xA9 # 0x65 # b0 # b1 # b2 # rest"
    and "b0 \<noteq> 0xFF" and "b1 \<noteq> 0xFF" and "b2 \<noteq> 0xFF"
  shows "(b1 AND 0x80 \<noteq> 0 \<longrightarrow> (\<forall>a\<in>settings_slots. eeprom (imp_exchange s) a = eeprom s a))
    \<and> (b1 AND 0x80 = 0 \<longrightarrow>
         eeprom (imp_exchange s) TEMPR_0 = push_bit 4 (b1 div 10) OR b1 mod 10
       \<and> eeprom (imp_exchange s) TEMPR_1 =
           push_bit 6 (if b0 AND 0x02 \<noteq> 0 then 0 else if b0 AND 0x04 \<noteq> 0 then 1
                       else if b0 AND 0x08 \<noteq> 0 then 2 else 3)
       \<and> eeprom (imp_exchange s) HUMID_0 = push_bit 4 (b2 div 10) OR b2 mod 10
       \<and> eeprom (imp_exchange s) HUMID_1 = b2 AND 0x80
       \<and> eeprom (imp_exchange s) LIGHT_0 =
           push_bit 6 (if b0 AND 0x40 \<noteq> 0 then 0 else if b0 AND 0x20 \<noteq> 0 then 2 else 1)
       \<and> eeprom (imp_exchange s) LIGHT_1 = eeprom s LIGHT_1)"
proof (intro conjI impI)
  assume "b1 AND 0x80 \<noteq> 0"
  then show "\<forall>a\<in>settings_slots. eeprom (imp_exchange s) a = eeprom s a"
    using assms
    by (simp add: imp_exchange_def recv_imp_def usart_in_imp_def Let_def usart_out_imp_eeprom
        packet_config_eeprom settings_slots_def)
qed (use assms imp_exchange_set_command [of s b0 b1 b2 rest] in simp_all)

text \<open>
  Witness for C2: the set command \<open>A9 65 02 4B 28\<close> (Auto, 75 F, humidity 40) and the
  status request \<open>A9 65 00 80 00\<close>, each sent to a freshly booted controller.
\<close>

theorem imp_exchange_settings_effect_witness:
  "eeprom (imp_exchange (fresh [0xA9, 0x65, 0x02, 0x4B, 0x28] [])) TEMPR_0 = 0x75
   \<and> eeprom (imp_exchange (fresh [0xA9, 0x65, 0x02, 0x4B, 0x28] [])) HUMID_0 = 0x40
   \<and> eeprom (imp_exchange (fresh [0xA9, 0x65, 0x00, 0x80, 0x00] [])) TEMPR_0
       = eeprom (fresh [0xA9, 0x65, 0x00, 0x80, 0x00] []) TEMPR_0
   \<and> eeprom (imp_exchange (fresh [0xA9, 0x65, 0x00, 0x80, 0x00] [])) TEMPR_1
       = eeprom (fresh [0xA9, 0x65, 0x00, 0x80, 0x00] []) TEMPR_1
   \<and> eeprom (imp_exchange (fresh [0xA9, 0x65, 0x00, 0x80, 0x00] [])) HUMID_0
       = eeprom (fresh [0xA9, 0x65, 0x00, 0x80, 0x00] []) HUMID_0
   \<and> eeprom (imp_exchange (fresh [0xA9, 0x65, 0x00, 0x80, 0x00] [])) HUMID_1
       = eeprom (fresh [0xA9, 0x65, 0x00, 0x80, 0x00] []) HUMID_1
   \<and> eeprom (imp_exchange (fresh [0xA9, 0x65, 0x00, 0x80, 0x00] [])) LIGHT_0
       = eeprom (fresh [0xA9, 0x65, 0x00, 0x80, 0x00] []) LIGHT_0
   \<and> eeprom (imp_exchange (fresh [0xA9, 0x65, 0x00, 0x80, 0x00] [])) LIGHT_1
       = eeprom (fresh [0xA9, 0x65, 0x00, 0x80, 0x00] []) LIGHT_1"
proof -
  have 1: "imp_rx (fresh [0xA9, 0x65, 0x02, 0x4B, 0x28] []) = 0xA9 # 0x65 # 0x02 # 0x4B # 0x28 # []"
    and 2: "imp_rx (fresh [0xA9, 0x65, 0x00, 0x80, 0x00] []) = 0xA9 # 0x65 # 0x00 # 0x80 # 0x00 # []"
    by (simp_all add: fresh_def boot_def load_panel_def Let_def)
  show ?thesis
    using imp_exchange_settings_effect [OF 1] imp_exchange_settings_effect [OF 2]
    by (simp add: settings_slots_def)
qed

text \<open>
  Claim C3: for every peer exchange (Imp or Xbee) that aborts because a header byte fails
  to match or a received byte is the 0xFF sentinel, the settings slots and the sensed
  readings \<open>temp_sen\<close> and \<open>humid_sen\<close> are left exactly as they were.
\<close>

theorem aborted_exchange_leaves_state:
  "(rx_nth (imp_rx s) 0 \<noteq> 0xA9 \<or> rx_nth (imp_rx s) 1 \<noteq> 0x65 \<or> rx_nth (imp_rx s) 2 = 0xFF
      \<or> rx_nth (imp_rx s) 3 = 0xFF \<or> rx_nth (imp_rx s) 4 = 0xFF
    \<longrightarrow> (\<forall>a\<in>settings_slots. eeprom (imp_exchange s) a = eeprom s a)
        \<and> temp_sen (imp_exchange s) = temp_sen s \<and> humid_sen (imp_exchange s) = humid_sen s)
 \<and> (rx_nth (xbee_rx s) 0 \<noteq> 0xE3 \<or> rx_nth (xbee_rx s) 1 = 0xFF \<or> rx_nth (xbee_rx s) 2 = 0xFF
    \<longrightarrow> (\<forall>a\<in>settings_slots. eeprom (xbee_exchange s) a = eeprom s a)
        \<and> temp_sen (xbee_exchange s) = temp_sen s \<and> humid_sen (xbee_exchange s) = humid_sen s)"
  by (simp add: imp_exchange_def xbee_exchange_def recv_imp_eq recv_xbee_eq rx_nth_tl Let_def
      eval_nat_numeral)

text \<open>
  Witness for C3: the Imp goes silent after the flags byte, the Xbee after the sensed
  temperature.
\<close>

theorem aborted_exchange_leaves_state_witness:
  "rx_nth (imp_rx (fresh [0xA9, 0x65, 0x02] [0xE3, 0x10])) 3 = 0xFF
   \<and> rx_nth (xbee_rx (fresh [0xA9, 0x65, 0x02] [0xE3, 0x10])) 2 = 0xFF
   \<and> eeprom (imp_exchange (fresh [0xA9, 0x65, 0x02] [0xE3, 0x10])) TEMPR_0 = 0x75
   \<and> humid_sen (imp_exchange (fresh [0xA9, 0x65, 0x02] [0xE3, 0x10])) = 0
   \<and> eeprom (xbee_exchange (fresh [0xA9, 0x65, 0x02] [0xE3, 0x10])) TEMPR_0 = 0x75
   \<and> temp_sen (xbee_exchange (fresh [0xA9, 0x65, 0x02] [0xE3, 0x10])) = 0"
proof -
  have 1: "rx_nth (imp_rx (fresh [0xA9, 0x65, 0x02] [0xE3, 0x10])) 3 = 0xFF"
    and 2: "rx_nth (xbee_rx (fresh [0xA9, 0x65, 0x02] [0xE3, 0x10])) 2 = 0xFF"
    and 3: "eeprom (fresh [0xA9, 0x65, 0x02] [0xE3, 0x10]) TEMPR_0 = 0x75"
    and 4: "humid_sen (fresh [0xA9, 0x65, 0x02] [0xE3, 0x10]) = 0"
    and 5: "temp_sen (fresh [0xA9, 0x65, 0x02] [0xE3, 0x10]) = 0"
    by (simp_all add: fresh_def boot_def load_panel_def eeprom_init_def Let_def rx_nth_def)
  show ?thesis
    using aborted_exchange_leaves_state [of "fresh [0xA9, 0x65, 0x02] [0xE3, 0x10]"] 1 2 3 4 5
    by (simp add: settings_slots_def)
qed

text \<open>
  Claim C4: for every set command accepted from the Imp (header 0xA9 0x65 matched, three
  payload bytes received, none equal to 0xFF, top bit of the temperature byte clear), the
  three bytes then sent to the Xbee are the three raw payload bytes, whatever the decode
  step makes of them.
\<close>

theorem imp_set_command_forwarded:
  assumes "imp_rx s = 0xA9 # 0x65 # b0 # b1 # b2 # rest"
    and "b0 \<noteq> 0xFF" and "b1 \<noteq> 0xFF" and "b2 \<noteq> 0xFF" and "b1 AND 0x80 = 0"
  shows "xbee_tx (imp_exchange s) = xbee_tx s @ [b0, b1, b2]"
  using assms
  by (simp add: imp_exchange_def recv_imp_def usart_in_imp_def Let_def usart_out_xbee_def
      var_config_def eeprom_update_byte_def eeprom_read_byte_def)

text \<open>Witness for C4: the set command \<open>A9 65 02 4B 28\<close> after a fresh boot.\<close>

theorem imp_set_command_forwarded_witness:
  "xbee_tx (imp_exchange (fresh [0xA9, 0x65, 0x02, 0x4B, 0x28] [])) = [0x02, 0x4B, 0x28]"
proof -
  have 1: "imp_rx (fresh [0xA9, 0x65, 0x02, 0x4B, 0x28] []) = 0xA9 # 0x65 # 0x02 # 0x4B # 0x28 # []"
    and 2: "xbee_tx (fresh [0xA9, 0x65, 0x02, 0x4B, 0x28] []) = []"
    by (simp_all add: fresh_def boot_def load_panel_def Let_def)
  show ?thesis
    using imp_set_command_forwarded [OF 1] 2 by simp
qed

text \<open>
  Claim C7: for every set command accepted from the Imp, the decode-and-persist step
  writes only decimal digits into the temperature slot, so that the corruption branch of
  a later \<open>packet_config\<close> cannot be reached through a set command.

  As stated this fails: the temperature byte of an accepted set command ranges over 0 to
  127, and for 100 to 127 \<open>var_config\<close> writes a tens digit of 10 to 12. The set command
  \<open>A9 65 02 64 28\<close> (temperature 100) stores 0xA0, on which \<open>packet_config\<close>
  reports the corruption; run from a fresh boot, the pass that receives the command
  leaves 0xA0 in the slot with nothing logged, and the next pass logs the fault.
\<close>

theorem imp_set_command_bad_digit:
  "bcd_high (eeprom (imp_exchange (fresh [0xA9, 0x65, 0x02, 0x64, 0x28] [])) TEMPR_0) = 10
   \<and> corrupt_log (packet_config (imp_exchange (fresh [0xA9, 0x65, 0x02, 0x64, 0x28] [])))
       = [TEMPR_0]
   \<and> map_option (\<lambda>s. eeprom s TEMPR_0)
        (run 1 (boot (\<lambda>_. 0xFF) [0, 0] [0, 0] [0xA9, 0x65, 0x02, 0x64, 0x28] [])) = Some 0xA0
   \<and> map_option corrupt_log
        (run 1 (boot (\<lambda>_. 0xFF) [0, 0] [0, 0] [0xA9, 0x65, 0x02, 0x64, 0x28] [])) = Some []
   \<and> map_option corrupt_log
        (run 2 (boot (\<lambda>_. 0xFF) [0, 0] [0, 0] [0xA9, 0x65, 0x02, 0x64, 0x28] [])) = Some [TEMPR_0]"
  by (simp add: run_numeral model_defs bcd_high_def Let_def cong: let_weak_cong)

text \<open>
  Claim C7, amended: for every set command accepted from the Imp, the decode-and-persist
  step writes the temperature byte divided by 10 as tens digit and its remainder as units
  digit into the temperature slot. Both are decimal digits exactly when the temperature
  byte is at most 99; for 100 to 127 the tens digit is 10 to 12. Every \<open>packet_config\<close>
  that finds the slot as the set command left it takes the corruption branch exactly
  when the byte exceeds 99. In the main loop: when the command arrives in a pass that
  stays on its panel, and the next pass stays on its panel too and its write-back leaves
  the temperature slot alone, the next pass logs a fault exactly when the byte exceeds
  99.
\<close>

theorem imp_set_command_digits:
  assumes "imp_rx s = 0xA9 # 0x65 # b0 # b1 # b2 # rest"
    and "b0 \<noteq> 0xFF" and "b1 \<noteq> 0xFF" and "b2 \<noteq> 0xFF" and "b1 AND 0x80 = 0"
  shows "bcd_high (eeprom (imp_exchange s) TEMPR_0) = b1 div 10
     \<and> bcd_low (eeprom (imp_exchange s) TEMPR_0) = b1 mod 10
     \<and> ((bcd_high (eeprom (imp_exchange s) TEMPR_0) \<le> 9
           \<and> bcd_low (eeprom (imp_exchange s) TEMPR_0) \<le> 9) \<longleftrightarrow> b1 \<le> 99)
     \<and> (99 < b1 \<longrightarrow> 10 \<le> bcd_high (eeprom (imp_exchange s) TEMPR_0)
                      \<and> bcd_high (eeprom (imp_exchange s) TEMPR_0) \<le> 12)
     \<and> (\<forall>s'. eeprom s' TEMPR_0 = eeprom (imp_exchange s) TEMPR_0 \<longrightarrow>
            (corrupt_log (packet_config s') = corrupt_log s' \<longleftrightarrow> b1 \<le> 99))
     \<and> (\<forall>p p1 p2 t t1.
            imp_rx p = imp_rx s
            \<and> tick p = Some p1 \<and> btn_db_mod p = Some t \<and> current_loop t = current t
            \<and> tick p1 = Some p2 \<and> btn_db_mod p1 = Some t1 \<and> current_loop t1 = current t1
            \<and> eeprom (store_edits t1) TEMPR_0 = eeprom t1 TEMPR_0
            \<longrightarrow> eeprom p1 TEMPR_0 = eeprom (imp_exchange s) TEMPR_0
                \<and> (corrupt_log p2 = corrupt_log p1 \<longleftrightarrow> b1 \<le> 99))"
proof -
  note e = imp_exchange_set_command(1) [OF assms]
  note v = var_config_digits [OF assms(5)]
  have h: "bcd_high (eeprom (imp_exchange s) TEMPR_0) = b1 div 10"
    and l: "bcd_low (eeprom (imp_exchange s) TEMPR_0) = b1 mod 10"
    unfolding e using v by simp_all
  have d: "(bcd_high (eeprom (imp_exchange s) TEMPR_0) \<le> 9
      \<and> bcd_low (eeprom (imp_exchange s) TEMPR_0) \<le> 9) \<longleftrightarrow> b1 \<le> 99"
    unfolding h l using v by simp
  have r: "99 < b1 \<longrightarrow> 10 \<le> bcd_high (eeprom (imp_exchange s) TEMPR_0)
                      \<and> bcd_high (eeprom (imp_exchange s) TEMPR_0) \<le> 12"
    unfolding h using tens_digit_range [OF assms(5)] by blast
  have a: "\<forall>s'. eeprom s' TEMPR_0 = eeprom (imp_exchange s) TEMPR_0 \<longrightarrow>
            (corrupt_log (packet_config s') = corrupt_log s' \<longleftrightarrow> b1 \<le> 99)"
    using d by (simp add: packet_config_log)
  have m: "\<forall>p p1 p2 t t1.
            imp_rx p = imp_rx s
            \<and> tick p = Some p1 \<and> btn_db_mod p = Some t \<and> current_loop t = current t
            \<and> tick p1 = Some p2 \<and> btn_db_mod p1 = Some t1 \<and> current_loop t1 = current t1
            \<and> eeprom (store_edits t1) TEMPR_0 = eeprom t1 TEMPR_0
            \<longrightarrow> eeprom p1 TEMPR_0 = eeprom (imp_exchange s) TEMPR_0
                \<and> (corrupt_log p2 = corrupt_log p1 \<longleftrightarrow> b1 \<le> 99)"
  proof (intro allI impI)
    fix p p1 p2 t t1 :: sys
    assume q: "imp_rx p = imp_rx s
            \<and> tick p = Some p1 \<and> btn_db_mod p = Some t \<and> current_loop t = current t
            \<and> tick p1 = Some p2 \<and> btn_db_mod p1 = Some t1 \<and> current_loop t1 = current t1
            \<and> eeprom (store_edits t1) TEMPR_0 = eeprom t1 TEMPR_0"
    then have rx: "imp_rx p = 0xA9 # 0x65 # b0 # b1 # b2 # rest"
      using assms(1) by simp
    from q have q1: "tick p = Some p1" and q2: "btn_db_mod p = Some t"
      and q3: "current_loop t = current t" and q4: "tick p1 = Some p2"
      and q5: "btn_db_mod p1 = Some t1" and q6: "current_loop t1 = current t1"
      and q7: "eeprom (store_edits t1) TEMPR_0 = eeprom t1 TEMPR_0"
      by simp_all
    note k = set_command_then_decode [OF q1 q2 q3 rx assms(2-5) q4 q5 q6 q7]
    show "eeprom p1 TEMPR_0 = eeprom (imp_exchange s) TEMPR_0
                \<and> (corrupt_log p2 = corrupt_log p1 \<longleftrightarrow> b1 \<le> 99)"
      using k e by simp
  qed
  show ?thesis
    by (rule conjI [OF h conjI [OF l conjI [OF d conjI [OF r conjI [OF a m]]]]])
qed

text \<open>
  Witness for C7: the set commands \<open>A9 65 02 4B 28\<close> (temperature 75) and
  \<open>A9 65 02 64 28\<close> (temperature 100), and two passes from a fresh boot with no
  button pressed, the first of which receives the command with temperature 75.
\<close>

theorem imp_set_command_digits_witness:
  "bcd_high (eeprom (imp_exchange (fresh [0xA9, 0x65, 0x02, 0x4B, 0x28] [])) TEMPR_0) = 7
   \<and> bcd_low (eeprom (imp_exchange (fresh [0xA9, 0x65, 0x02, 0x4B, 0x28] [])) TEMPR_0) = 5
   \<and> corrupt_log (packet_config (imp_exchange (fresh [0xA9, 0x65, 0x02, 0x4B, 0x28] []))) = []
   \<and> 10 \<le> bcd_high (eeprom (imp_exchange (fresh [0xA9, 0x65, 0x02, 0x64, 0x28] [])) TEMPR_0)
   \<and> bcd_high (eeprom (imp_exchange (fresh [0xA9, 0x65, 0x02, 0x64, 0x28] [])) TEMPR_0) \<le> 12
   \<and> eeprom (the (tick (boot (\<lambda>_. 0xFF) [0, 0] [0, 0] [0xA9, 0x65, 0x02, 0x4B, 0x28] [])))
        TEMPR_0
       = eeprom (imp_exchange (fresh [0xA9, 0x65, 0x02, 0x4B, 0x28] [])) TEMPR_0
   \<and> corrupt_log
        (the (tick (the (tick (boot (\<lambda>_. 0xFF) [0, 0] [0, 0] [0xA9, 0x65, 0x02, 0x4B, 0x28] [])))))
       = corrupt_log
        (the (tick (boot (\<lambda>_. 0xFF) [0, 0] [0, 0] [0xA9, 0x65, 0x02, 0x4B, 0x28] [])))"
proof -
  let ?s = "fresh [0xA9, 0x65, 0x02, 0x4B, 0x28] []"
  let ?c = "fresh [0xA9, 0x65, 0x02, 0x64, 0x28] []"
  let ?p = "boot (\<lambda>_. 0xFF) [0, 0] [0, 0] [0xA9, 0x65, 0x02, 0x4B, 0x28] []"
  let ?p1 = "the (tick ?p)"
  have 1: "imp_rx ?s = 0xA9 # 0x65 # 0x02 # 0x4B # 0x28 # []"
    and 2: "corrupt_log (imp_exchange ?s) = []"
    and 3: "imp_rx ?c = 0xA9 # 0x65 # 0x02 # 0x64 # 0x28 # []"
    by (simp_all add: model_defs Let_def cong: let_weak_cong)
  have 4: "imp_rx ?p = imp_rx ?s
      \<and> tick ?p = Some ?p1 \<and> btn_db_mod ?p = Some (the (btn_db_mod ?p))
      \<and> current_loop (the (btn_db_mod ?p)) = current (the (btn_db_mod ?p))"
    by (simp add: model_defs Let_def cong: let_weak_cong)
  have 5: "tick ?p1 = Some (the (tick ?p1)) \<and> btn_db_mod ?p1 = Some (the (btn_db_mod ?p1))
      \<and> current_loop (the (btn_db_mod ?p1)) = current (the (btn_db_mod ?p1))
      \<and> eeprom (store_edits (the (btn_db_mod ?p1))) TEMPR_0 = eeprom (the (btn_db_mod ?p1)) TEMPR_0"
    by (simp add: model_defs Let_def cong: let_weak_cong)
  have 6: "(0x4B :: u8) \<le> 99" "(99 :: u8) < 0x64"
    by simp_all
  have ne: "(0x02 :: u8) \<noteq> 0xFF" "(0x4B :: u8) \<noteq> 0xFF" "(0x28 :: u8) \<noteq> 0xFF"
    "(0x64 :: u8) \<noteq> 0xFF" "(0x4B :: u8) AND 0x80 = 0" "(0x64 :: u8) AND 0x80 = 0"
    by simp_all
  note a = imp_set_command_digits [OF 1 ne(1) ne(2) ne(3) ne(5)]
  note b = imp_set_command_digits [OF 3 ne(1) ne(4) ne(3) ne(6)]
  have a1: "bcd_high (eeprom (imp_exchange ?s) TEMPR_0) = 7"
    using a [THEN conjunct1] by simp
  have a2: "bcd_low (eeprom (imp_exchange ?s) TEMPR_0) = 5"
    using a [THEN conjunct2, THEN conjunct1] by simp
  have "corrupt_log (packet_config (imp_exchange ?s)) = corrupt_log (imp_exchange ?s)
      \<longleftrightarrow> (0x4B :: u8) \<le> 99"
    using a [THEN conjunct2, THEN conjunct2, THEN conjunct2, THEN conjunct2, THEN conjunct1]
    by blast
  then have a3: "corrupt_log (packet_config (imp_exchange ?s)) = []"
    using 6(1) 2 by simp
  have "eeprom ?p1 TEMPR_0 = eeprom (imp_exchange ?s) TEMPR_0
      \<and> (corrupt_log (the (tick ?p1)) = corrupt_log ?p1 \<longleftrightarrow> (0x4B :: u8) \<le> 99)"
    using a [THEN conjunct2, THEN conjunct2, THEN conjunct2, THEN conjunct2, THEN conjunct2]
      4 5
    by blast
  then have a4: "eeprom ?p1 TEMPR_0 = eeprom (imp_exchange ?s) TEMPR_0"
    and a5: "corrupt_log (the (tick ?p1)) = corrupt_log ?p1"
    using 6(1) by simp_all
  have b1: "10 \<le> bcd_high (eeprom (imp_exchange ?c) TEMPR_0)"
    and b2: "bcd_high (eeprom (imp_exchange ?c) TEMPR_0) \<le> 12"
    using b [THEN conjunct2, THEN conjunct2, THEN conjunct2, THEN conjunct1] 6(2)
    by simp_all
  show ?thesis
    by (rule conjI [OF a1 conjI [OF a2 conjI [OF a3 conjI [OF b1 conjI [OF b2 conjI [OF a4 a5]]]]]])
qed

text \<open>
  Claim C10: if an Imp exchange matches both header bytes and reads one or two payload
  bytes before a 0xFF sentinel aborts it, the cached flags byte (and, after two bytes,
  the cached temperature byte) has been overwritten with the partial payload, and a
  successful Xbee exchange later in the same pass embeds those partially received bytes
  in its 0xD4 acknowledgement frame.

  As stated this fails for the temperature byte: the Xbee exchange stores the sensed
  temperature it has just received in the same variable before it sends the frame. With
  \<open>A9 65 02 4B FF\<close> from the Imp and \<open>E3 10 20\<close> from the Xbee, the cached
  temperature byte is 0x4B after the Imp exchange and the frame is \<open>D4 02 10 20\<close>.
\<close>

theorem partial_temperature_not_in_ack:
  "temp_char (imp_exchange (fresh [0xA9, 0x65, 0x02, 0x4B, 0xFF] [0xE3, 0x10, 0x20])) = 0x4B
   \<and> xbee_tx (xbee_exchange (imp_exchange (fresh [0xA9, 0x65, 0x02, 0x4B, 0xFF] [0xE3, 0x10, 0x20])))
       = [0xD4, 0x02, 0x10, 0x20]
   \<and> 0x4B \<notin> set (xbee_tx (xbee_exchange
         (imp_exchange (fresh [0xA9, 0x65, 0x02, 0x4B, 0xFF] [0xE3, 0x10, 0x20]))))"
  by (simp add: model_defs Let_def cong: let_weak_cong)

text \<open>
  Claim C10, amended: if an Imp exchange matches both header bytes and reads one or two
  payload bytes before a 0xFF sentinel aborts it, the cached flags byte (and, after two
  bytes, the cached temperature byte) has been overwritten with the partial payload; a
  successful Xbee exchange later in the same pass sends the frame 0xD4, the partially
  received flags byte, and the two bytes it has itself just received, so the aborted Imp
  exchange is observable on the Xbee channel through the flags byte.
\<close>

theorem partial_flags_in_ack:
  assumes "imp_rx s = 0xA9 # 0x65 # b0 # rest" and "b0 \<noteq> 0xFF"
    and "rx_nth rest 0 = 0xFF \<or> rx_nth rest 1 = 0xFF"
    and "xbee_rx s = 0xE3 # x1 # x2 # xrest" and "x1 \<noteq> 0xFF" and "x2 \<noteq> 0xFF"
  shows "io_char (imp_exchange s) = b0
     \<and> (rx_nth rest 0 \<noteq> 0xFF \<longrightarrow> temp_char (imp_exchange s) = rx_nth rest 0)
     \<and> xbee_tx (xbee_exchange (imp_exchange s)) = xbee_tx s @ [0xD4, b0, x1, x2]"
proof -
  have x: "rx_nth (xbee_rx s) 0 = 0xE3" "rx_nth (xbee_rx s) (Suc 0) = x1"
    "rx_nth (xbee_rx s) (Suc (Suc 0)) = x2"
    and i: "rx_nth (imp_rx s) 0 = 0xA9" "rx_nth (imp_rx s) (Suc 0) = 0x65"
    "rx_nth (imp_rx s) (Suc (Suc 0)) = b0"
    "rx_nth (imp_rx s) (Suc (Suc (Suc 0))) = rx_nth rest 0"
    "rx_nth (imp_rx s) (Suc (Suc (Suc (Suc 0)))) = rx_nth rest (Suc 0)"
    by (simp_all add: assms(1,4) rx_nth_Cons)
  from assms(3) consider "rx_nth rest 0 = 0xFF"
    | "rx_nth rest 0 \<noteq> 0xFF" and "rx_nth rest (Suc 0) = 0xFF"
    by auto
  then show ?thesis
  proof cases
    case 1
    then show ?thesis
      using assms(2,5,6) x i
      by (simp add: imp_exchange_def xbee_exchange_def recv_imp_eq recv_xbee_eq rx_nth_tl
          Let_def usart_out_xbee_def)
  next
    case 2
    then show ?thesis
      using assms(2,5,6) x i
      by (simp add: imp_exchange_def xbee_exchange_def recv_imp_eq recv_xbee_eq rx_nth_tl
          Let_def usart_out_xbee_def)
  qed
qed

text \<open>
  Witness for C10: the Imp sends the flags byte 0x42 and the temperature 70 and then
  goes silent; the Xbee reports 0x15 and 0x30.
\<close>

theorem partial_flags_in_ack_witness:
  "io_char (imp_exchange (fresh [0xA9, 0x65, 0x42, 0x46] [0xE3, 0x15, 0x30])) = 0x42
   \<and> temp_char (imp_exchange (fresh [0xA9, 0x65, 0x42, 0x46] [0xE3, 0x15, 0x30])) = 0x46
   \<and> xbee_tx (xbee_exchange (imp_exchange (fresh [0xA9, 0x65, 0x42, 0x46] [0xE3, 0x15, 0x30])))
       = [0xD4, 0x42, 0x15, 0x30]"
proof -
  have 1: "imp_rx (fresh [0xA9, 0x65, 0x42, 0x46] [0xE3, 0x15, 0x30]) = 0xA9 # 0x65 # 0x42 # [0x46]"
    and 2: "xbee_rx (fresh [0xA9, 0x65, 0x42, 0x46] [0xE3, 0x15, 0x30]) = 0xE3 # 0x15 # 0x30 # []"
    and 3: "xbee_tx (fresh [0xA9, 0x65, 0x42, 0x46] [0xE3, 0x15, 0x30]) = []"
    by (simp_all add: fresh_def boot_def load_panel_def Let_def)
  have 4: "rx_nth [0x46] 0 = 0xFF \<or> rx_nth [0x46] 1 = 0xFF"
    and 5: "rx_nth [0x46] 0 = 0x46"
    by (simp_all add: rx_nth_def)
  show ?thesis
    using partial_flags_in_ack [OF 1 _ 4 2] 3 5 by simp
qed

section \<open>Decoding the persisted settings\<close>

text \<open>
  Claim C8: during \<open>packet_config\<close> a corruption fault is signalled if and only if at
  least one of the two digits of the persisted temperature byte exceeds 9; the persisted
  humidity byte never signals a fault, whatever its digits.
\<close>

theorem packet_config_corruption:
  "(corrupt_log (packet_config s) = corrupt_log s @ [TEMPR_0]
      \<longleftrightarrow> (bcd_high (eeprom s TEMPR_0) > 9 \<or> bcd_low (eeprom s TEMPR_0) > 9))
   \<and> (corrupt_log (packet_config s) = corrupt_log s
      \<longleftrightarrow> \<not> (bcd_high (eeprom s TEMPR_0) > 9 \<or> bcd_low (eeprom s TEMPR_0) > 9))
   \<and> corrupt_log (packet_config (eeprom_update_byte HUMID_0 h s)) = corrupt_log (packet_config s)"
  by (simp add: packet_config_def Let_def eeprom_update_byte_def eeprom_read_byte_def
      data_corruption_def bcd_high_def bcd_low_def)

text \<open>
  Witness for C8: a temperature slot holding 0xA5 is reported, the first-boot settings
  are not, and a humidity slot holding 0xFF changes nothing.
\<close>

theorem packet_config_corruption_witness:
  "corrupt_log (packet_config (eeprom_update_byte TEMPR_0 0xA5 (fresh [] []))) = [TEMPR_0]
   \<and> corrupt_log (packet_config (fresh [] [])) = []
   \<and> corrupt_log (packet_config (eeprom_update_byte HUMID_0 0xFF (fresh [] []))) = []"
proof -
  have 1: "eeprom (eeprom_update_byte TEMPR_0 0xA5 (fresh [] [])) TEMPR_0 = 0xA5"
    and 2: "eeprom (fresh [] []) TEMPR_0 = 0x75"
    and 3: "corrupt_log (eeprom_update_byte TEMPR_0 0xA5 (fresh [] [])) = []"
    and 4: "corrupt_log (fresh [] []) = []"
    by (simp_all add: fresh_def boot_def load_panel_def eeprom_init_def eeprom_update_byte_def
        Let_def)
  show ?thesis
    using packet_config_corruption [where s = "eeprom_update_byte TEMPR_0 0xA5 (fresh [] [])" and h = "0"]
      packet_config_corruption [where s = "fresh [] []" and h = "0xFF"] 1 2 3 4
    by (simp add: bcd_high_def bcd_low_def)
qed

section \<open>Editing the targets\<close>

text \<open>
  Claim C5: for every starting temperature target in the inclusive range 60 to 90 and every
  finite sequence of increment and decrement presses applied while the temperature panel
  is in its value phase (\<open>editing = 2\<close>), the resulting target is again within 60 to
  90; incrementing at 90 yields 60 and decrementing at 60 yields 90.

  The first part holds for any number of calls of \<open>tempr_config\<close> on any trace of
  button samples; a call in which \<open>btn_db_val\<close> returns 1 is an increment press, one
  in which it returns 2 a decrement press.
\<close>

theorem tempr_edit_value_range:
  "(\<forall>n s s'. editing s = 2 \<and> tempr_in_range (local_data_0 s) \<and> tempr_presses n s = Some s'
        \<longrightarrow> tempr_in_range (local_data_0 s'))
   \<and> (\<forall>s s1. editing s = 2 \<and> local_data_0 s = 0x90 \<and> btn_db_val s = Some (1, s1)
        \<longrightarrow> map_option local_data_0 (tempr_config s) = Some 0x60)
   \<and> (\<forall>s s1. editing s = 2 \<and> local_data_0 s = 0x60 \<and> btn_db_val s = Some (2, s1)
        \<longrightarrow> map_option local_data_0 (tempr_config s) = Some 0x90)"
proof (intro conjI allI impI)
  fix n s s'
  assume "editing s = 2 \<and> tempr_in_range (local_data_0 s) \<and> tempr_presses n s = Some s'"
  then show "tempr_in_range (local_data_0 s')"
    using tempr_presses_in_range by blast
next
  fix s s1
  assume "editing s = 2 \<and> local_data_0 s = 0x90 \<and> btn_db_val s = Some (1, s1)"
  then have "tempr_config s = Some (s1\<lparr>changed := 1, local_data_0 := 0x60,
       local_data_1 := 0 OR push_bit 6 (drop_bit 6 (local_data_1 s AND 0xC0))\<rparr>)"
    using tempr_config_edit_value [of s 1 s1]
    by (simp add: bcd_high_def bcd_low_def bcd_pack_def tempr_incr_def)
  then show "map_option local_data_0 (tempr_config s) = Some 0x60"
    by simp
next
  fix s s1
  assume "editing s = 2 \<and> local_data_0 s = 0x60 \<and> btn_db_val s = Some (2, s1)"
  then have "tempr_config s = Some (s1\<lparr>changed := 1, local_data_0 := 0x90,
       local_data_1 := 0 OR push_bit 6 (drop_bit 6 (local_data_1 s AND 0xC0))\<rparr>)"
    using tempr_config_edit_value [of s 2 s1]
    by (simp add: bcd_high_def bcd_low_def bcd_pack_def tempr_decr_def)
  then show "map_option local_data_0 (tempr_config s) = Some 0x90"
    by simp
qed

text \<open>
  Witness for C5: from the first-boot target 75, an increment press and then a decrement
  press; an increment press at 90; a decrement press at 60. A press is the button's bit
  in the sample read for it, followed by a sample with the bit clear.
\<close>

theorem tempr_edit_value_range_witness:
  "tempr_in_range (local_data_0 (fresh [] []))
   \<and> (\<exists>s'. tempr_presses (Suc (Suc 0)) ((fresh [] [])\<lparr>editing := 2, pinc := [4, 0, 0, 0, 8, 0]\<rparr>)
              = Some s' \<and> tempr_in_range (local_data_0 s'))
   \<and> map_option local_data_0
        (tempr_config ((fresh [] [])\<lparr>editing := 2, local_data_0 := 0x90, pinc := [4, 0, 0]\<rparr>))
       = Some 0x60
   \<and> map_option local_data_0
        (tempr_config ((fresh [] [])\<lparr>editing := 2, local_data_0 := 0x60, pinc := [0, 8, 0]\<rparr>))
       = Some 0x90"
proof -
  let ?s = "(fresh [] [])\<lparr>editing := 2, pinc := [4, 0, 0, 0, 8, 0]\<rparr>"
  let ?u = "(fresh [] [])\<lparr>editing := 2, local_data_0 := 0x90, pinc := [4, 0, 0]\<rparr>"
  let ?d = "(fresh [] [])\<lparr>editing := 2, local_data_0 := 0x60, pinc := [0, 8, 0]\<rparr>"
  have 0: "tempr_in_range (local_data_0 (fresh [] []))"
    and 1: "editing ?s = 2" "tempr_in_range (local_data_0 ?s)"
    by (simp_all add: model_defs Let_def tempr_in_range_def tempr_target_def bcd_high_def
        bcd_low_def cong: let_weak_cong)
  have "\<exists>s'. tempr_presses (Suc (Suc 0)) ?s = Some s'"
    by (simp add: model_defs Let_def cong: let_weak_cong)
  then obtain s' where 2: "tempr_presses (Suc (Suc 0)) ?s = Some s'"
    by blast
  have 3: "editing ?u = 2 \<and> local_data_0 ?u = 0x90 \<and> btn_db_val ?u = Some (1, ?u\<lparr>pinc := []\<rparr>)"
    and 4: "editing ?d = 2 \<and> local_data_0 ?d = 0x60 \<and> btn_db_val ?d = Some (2, ?d\<lparr>pinc := []\<rparr>)"
    by (simp_all add: model_defs Let_def cong: let_weak_cong)
  show ?thesis
    using tempr_edit_value_range 0 1 2 3 4 by blast
qed

text \<open>
  Claim C6: in the value phase of the humidity panel (\<open>editing = 2\<close>) each increment
  adds 5 to the low digit, setting it to 0 and incrementing the high digit when it
  exceeds 9, and wrapping the high digit to 0 when it reaches 10; each decrement
  subtracts 5 from the low digit, setting it to 5 and decrementing the high digit on
  borrow, and setting the high digit to 9 when it underflows. Starting from 95 an
  increment yields 0, and starting from 0 a decrement yields 95.

  As stated this fails on stored digits above 9, which the controller can reach: the
  decrement sets the high digit to 9 whenever it is above 9, borrow or not. From a fresh
  boot the Imp set command \<open>A9 65 02 4B 94\<close> stores the humidity byte 0xE8; the
  mode button and two presses of the phase button bring the humidity panel into its value
  phase with the digits (14, 8); a decrement press then gives (9, 3), where the rule
  gives (14, 3).
\<close>

theorem humid_decrement_invalid_digit:
  "map_option (\<lambda>s. eeprom s HUMID_0)
      (run 1 (boot (\<lambda>_. 0xFF) [0, 0x80, 0, 0, 0, 0] [0, 0, 2, 0, 0, 0, 2, 0, 0, 0, 0, 0, 8, 0]
                [0xA9, 0x65, 0x02, 0x4B, 0x94] [])) = Some 0xE8
   \<and> map_option editing
      (run 4 (boot (\<lambda>_. 0xFF) [0, 0x80, 0, 0, 0, 0] [0, 0, 2, 0, 0, 0, 2, 0, 0, 0, 0, 0, 8, 0]
                [0xA9, 0x65, 0x02, 0x4B, 0x94] [])) = Some 2
   \<and> map_option (digits_of \<circ> local_data_0)
      (run 4 (boot (\<lambda>_. 0xFF) [0, 0x80, 0, 0, 0, 0] [0, 0, 2, 0, 0, 0, 2, 0, 0, 0, 0, 0, 8, 0]
                [0xA9, 0x65, 0x02, 0x4B, 0x94] [])) = Some (14, 8)
   \<and> map_option (digits_of \<circ> local_data_0)
      (run 5 (boot (\<lambda>_. 0xFF) [0, 0x80, 0, 0, 0, 0] [0, 0, 2, 0, 0, 0, 2, 0, 0, 0, 0, 0, 8, 0]
                [0xA9, 0x65, 0x02, 0x4B, 0x94] [])) = Some (9, 3)
   \<and> humid_decr_spec (14, 8) = (14, 3)"
  by (simp add: run_numeral model_defs digits_of_def bcd_high_def bcd_low_def
      humid_decr_spec_def Let_def cong: let_weak_cong)

text \<open>
  Claim C6, amended: in the value phase of the humidity panel (\<open>editing = 2\<close>), when
  both stored digits are decimal digits (0 to 9), each increment adds 5 to the low digit,
  setting it to 0 and incrementing the high digit when it exceeds 9, and wrapping the
  high digit to 0 when it reaches 10; each decrement subtracts 5 from the low digit,
  setting it to 5 and decrementing the high digit on borrow, and setting the high digit
  to 9 when it underflows. Starting from 95 an increment yields 0, and starting from 0 a
  decrement yields 95.
\<close>

theorem humid_edit_value_steps:
  assumes "editing s = 2"
    and "bcd_high (local_data_0 s) \<le> 9" and "bcd_low (local_data_0 s) \<le> 9"
  shows "(btn_db_val s = Some (1, s1) \<longrightarrow>
            map_option (digits_of \<circ> local_data_0) (humid_config s)
              = Some (humid_incr_spec (digits_of (local_data_0 s))))
       \<and> (btn_db_val s = Some (2, s1) \<longrightarrow>
            map_option (digits_of \<circ> local_data_0) (humid_config s)
              = Some (humid_decr_spec (digits_of (local_data_0 s))))
       \<and> (btn_db_val s = Some (1, s1) \<and> local_data_0 s = 0x95 \<longrightarrow>
            map_option local_data_0 (humid_config s) = Some 0x00)
       \<and> (btn_db_val s = Some (2, s1) \<and> local_data_0 s = 0x00 \<longrightarrow>
            map_option local_data_0 (humid_config s) = Some 0x95)"
proof (intro conjI impI)
  assume b: "btn_db_val s = Some (1, s1)"
  show "map_option (digits_of \<circ> local_data_0) (humid_config s)
              = Some (humid_incr_spec (digits_of (local_data_0 s)))"
    using humid_step [OF assms(2,3)]
    by (simp add: humid_config_edit_value [OF assms(1) b])
next
  assume b: "btn_db_val s = Some (2, s1)"
  show "map_option (digits_of \<circ> local_data_0) (humid_config s)
              = Some (humid_decr_spec (digits_of (local_data_0 s)))"
    using humid_step [OF assms(2,3)]
    by (simp add: humid_config_edit_value [OF assms(1) b])
next
  assume "btn_db_val s = Some (1, s1) \<and> local_data_0 s = 0x95"
  then show "map_option local_data_0 (humid_config s) = Some 0x00"
    using humid_config_edit_value [OF assms(1), of 1 s1]
    by (simp add: bcd_high_def bcd_low_def bcd_pack_def humid_incr_def)
next
  assume "btn_db_val s = Some (2, s1) \<and> local_data_0 s = 0x00"
  then show "map_option local_data_0 (humid_config s) = Some 0x95"
    using humid_config_edit_value [OF assms(1), of 2 s1]
    by (simp add: bcd_high_def bcd_low_def bcd_pack_def humid_decr_def)
qed

text \<open>
  Witness for C6: an increment press at 95 and a decrement press at 0, with the digits
  the step rule gives.
\<close>

theorem humid_edit_value_steps_witness:
  "map_option local_data_0
      (humid_config ((fresh [] [])\<lparr>editing := 2, local_data_0 := 0x95, pinc := [4, 0, 0]\<rparr>))
     = Some 0x00
   \<and> humid_incr_spec (9, 5) = (0, 0)
   \<and> map_option (digits_of \<circ> local_data_0)
      (humid_config ((fresh [] [])\<lparr>editing := 2, local_data_0 := 0x95, pinc := [4, 0, 0]\<rparr>))
     = Some (0, 0)
   \<and> map_option local_data_0
      (humid_config ((fresh [] [])\<lparr>editing := 2, local_data_0 := 0x00, pinc := [0, 8, 0]\<rparr>))
     = Some 0x95
   \<and> humid_decr_spec (0, 0) = (9, 5)
   \<and> map_option (digits_of \<circ> local_data_0)
      (humid_config ((fresh [] [])\<lparr>editing := 2, local_data_0 := 0x00, pinc := [0, 8, 0]\<rparr>))
     = Some (9, 5)"
proof -
  let ?u = "(fresh [] [])\<lparr>editing := 2, local_data_0 := 0x95, pinc := [4, 0, 0]\<rparr>"
  let ?d = "(fresh [] [])\<lparr>editing := 2, local_data_0 := 0x00, pinc := [0, 8, 0]\<rparr>"
  have u: "editing ?u = 2" "bcd_high (local_data_0 ?u) \<le> 9" "bcd_low (local_data_0 ?u) \<le> 9"
    and d: "editing ?d = 2" "bcd_high (local_data_0 ?d) \<le> 9" "bcd_low (local_data_0 ?d) \<le> 9"
    by (simp_all add: bcd_high_def bcd_low_def)
  have bu: "btn_db_val ?u = Some (1, ?u\<lparr>pinc := []\<rparr>)" "local_data_0 ?u = 0x95"
      "digits_of (local_data_0 ?u) = (9, 5)"
    and bd: "btn_db_val ?d = Some (2, ?d\<lparr>pinc := []\<rparr>)" "local_data_0 ?d = 0x00"
      "digits_of (local_data_0 ?d) = (0, 0)"
    by (simp_all add: model_defs Let_def digits_of_def bcd_high_def bcd_low_def
        cong: let_weak_cong)
  have s: "humid_incr_spec (9, 5) = (0, 0)" "humid_decr_spec (0, 0) = (9, 5)"
    by (simp_all add: humid_incr_spec_def humid_decr_spec_def)
  show ?thesis
    using humid_edit_value_steps [OF u, of "?u\<lparr>pinc := []\<rparr>"]
      humid_edit_value_steps [OF d, of "?d\<lparr>pinc := []\<rparr>"] bu bd s
    by simp
qed

section \<open>Writing edits back\<close>




end
